theory Spec2Isabelle
  imports Main
begin

section \<open>Proxy transaction detection (src/lib/ProxyDetection.ts)\<close>

text \<open>
  A shallow embedding of \<^verbatim>\<open>ProxyDetection.ts\<close>: the tag codec
  (\<^verbatim>\<open>proxyTransactionIdentifierToExtraData\<close>, \<^verbatim>\<open>isProxyData\<close>), the direction
  classifier (\<^verbatim>\<open>getProxyAddress\<close>) and the correlation matcher
  (\<^verbatim>\<open>handleProxyTransaction\<close>).

  JavaScript strings are modelled as \<open>string\<close>, JavaScript numbers that hold integer
  amounts, heights and timestamps as \<open>int\<close>, an optional property as an \<open>option\<close>.
  The two Vue stores the code reads (address store, proxy store) are passed in as a
  record; the three calls it makes on the proxy store are returned as a value.
\<close>

subsection \<open>Enumerations\<close>

datatype ProxyType = CASHLINK | HTLC_PROXY

datatype ProxyTransactionDirection = FUND | REDEEM

text \<open>
  Modelled from the spec: the enumeration \<^verbatim>\<open>TransactionState\<close> is imported from
  \<^verbatim>\<open>@/stores/Transactions\<close>, which is not among the sources. The code only compares
  against \<^verbatim>\<open>INVALIDATED\<close>, \<^verbatim>\<open>EXPIRED\<close> and \<^verbatim>\<open>CONFIRMED\<close>; the spec lists the
  states as NEW/PENDING, CONFIRMED, INVALIDATED, EXPIRED.
\<close>

datatype TransactionState = NEW | PENDING | CONFIRMED | INVALIDATED | EXPIRED

subsection \<open>Tag codec\<close>

text \<open>One digit of \<^verbatim>\<open>Number.prototype.toString(16)\<close>.\<close>

definition hexDigit :: "nat \<Rightarrow> char" where
  "hexDigit d = ''0123456789abcdef'' ! d"

text \<open>\<^verbatim>\<open>value.toString(16)\<close> for a non-negative integer: no leading zeros, lowercase.\<close>

fun toString16 :: "nat \<Rightarrow> string" where
  "toString16 n = (if n < 16 then [hexDigit n] else toString16 (n div 16) @ [hexDigit (n mod 16)])"

declare toString16.simps [simp del]

text \<open>\<^verbatim>\<open>s.padStart(2, '0')\<close>.\<close>

definition padStart2 :: "string \<Rightarrow> string" where
  "padStart2 s = replicate (2 - length s) (CHR ''0'') @ s"

text \<open>
  \<^verbatim>\<open>new Uint8Array([0, ...identifier.split('').map((c) => c.charCodeAt(0) + 63)])\<close>
  stores every element modulo 256; \<^verbatim>\<open>reduce\<close> with the initial value \<^verbatim>\<open>''\<close> is a
  left fold.
\<close>

definition proxyTransactionIdentifierToExtraData :: "string \<Rightarrow> string" where
  "proxyTransactionIdentifierToExtraData identifier =
     (let extraData = map (\<lambda>v. v mod 256) (0 # map (\<lambda>c. of_char c + 63) identifier)
      in foldl (\<lambda>hex v. hex @ padStart2 (toString16 v)) [] extraData)"

fun ProxyExtraData :: "ProxyType \<Rightarrow> ProxyTransactionDirection \<Rightarrow> string" where
  "ProxyExtraData CASHLINK FUND = proxyTransactionIdentifierToExtraData ''CASH''"
| "ProxyExtraData CASHLINK REDEEM = proxyTransactionIdentifierToExtraData ''LINK''"
| "ProxyExtraData HTLC_PROXY FUND = proxyTransactionIdentifierToExtraData ''HPFD''"
| "ProxyExtraData HTLC_PROXY REDEEM = proxyTransactionIdentifierToExtraData ''HPRD''"

text \<open>
  \<^verbatim>\<open>String.prototype.toLowerCase\<close> on the characters a \<open>string\<close> has: the letters
  A to Z are mapped to a to z, every other character is kept.
\<close>

definition toLowerCaseChar :: "char \<Rightarrow> char" where
  "toLowerCaseChar c =
     (if 65 \<le> (of_char c :: nat) \<and> (of_char c :: nat) \<le> 90 then char_of (of_char c + 32 :: nat) else c)"

definition toLowerCase :: "string \<Rightarrow> string" where
  "toLowerCase s = map toLowerCaseChar s"

text \<open>
  The optional parameters \<^verbatim>\<open>proxyType\<close> and \<^verbatim>\<open>transactionDirection\<close> are options;
  both enumerations hold non-empty strings, so a given value is truthy.
  \<^verbatim>\<open>Object.values(ProxyType)\<close> enumerates CASHLINK, HTLC_PROXY.
\<close>

definition isProxyData :: "string \<Rightarrow> ProxyType option \<Rightarrow> ProxyTransactionDirection option \<Rightarrow> bool" where
  "isProxyData data proxyType transactionDirection =
     (let data' = toLowerCase data;
          proxyTypesToCheck = (case proxyType of Some t \<Rightarrow> [t] | None \<Rightarrow> [CASHLINK, HTLC_PROXY]);
          directionsToCheck = (case transactionDirection of Some d \<Rightarrow> [d] | None \<Rightarrow> [FUND, REDEEM])
      in list_ex (\<lambda>type. list_ex (\<lambda>dir. ProxyExtraData type dir = data') directionsToCheck)
           proxyTypesToCheck)"

subsection \<open>Transactions and stores\<close>

text \<open>
  Modelled from the spec: the type \<^verbatim>\<open>Transaction\<close> is imported from
  \<^verbatim>\<open>@/stores/Transactions\<close>, which is not among the sources. The record has the
  properties that \<^verbatim>\<open>ProxyDetection.ts\<close> reads, with the optionality the spec gives
  them; \<open>txValue\<close> is the property \<^verbatim>\<open>value\<close> and \<open>dataRaw\<close> is \<^verbatim>\<open>data.raw\<close>.
\<close>

record Transaction =
  transactionHash :: string
  sender :: string
  recipient :: string
  txValue :: int
  fee :: int
  timestamp :: "int option"
  blockHeight :: "int option"
  validityStartHeight :: int
  state :: TransactionState
  relatedTransactionHash :: "string option"
  dataRaw :: string

text \<open>
  The stores the code reads: \<^verbatim>\<open>useAddressStore().state.addressInfos\<close>, a dictionary
  from address to address info of which only the presence of a key is used, and
  \<^verbatim>\<open>useProxyStore().allProxies.value\<close>, an array of addresses.
\<close>

record Stores =
  addressInfos :: "string \<rightharpoonup> unit"
  allProxies :: "string list"

text \<open>The call made on the proxy store at the end of \<^verbatim>\<open>handleProxyTransaction\<close>.\<close>

datatype ProxyStoreCall = AddFundedProxy string | AddClaimedProxy string | RemoveProxy string

datatype error = TypeError

text \<open>JavaScript truthiness of an optional number (0 is falsy) and an optional string (the empty string is falsy).\<close>

definition truthyNumber :: "int option \<Rightarrow> bool" where
  "truthyNumber x = (case x of None \<Rightarrow> False | Some n \<Rightarrow> n \<noteq> 0)"

definition truthyString :: "string option \<Rightarrow> bool" where
  "truthyString x = (case x of None \<Rightarrow> False | Some s \<Rightarrow> s \<noteq> [])"

text \<open>\<^verbatim>\<open>!!addresses$.addressInfos[address]\<close>.\<close>

definition isOwnAddress :: "Stores \<Rightarrow> string \<Rightarrow> bool" where
  "isOwnAddress st address = (addressInfos st address \<noteq> None)"

subsection \<open>Direction classifier\<close>

text \<open>The local \<^verbatim>\<open>isFunding\<close> of \<^verbatim>\<open>getProxyAddress\<close>.\<close>

definition getProxyAddress_isFunding :: "Stores \<Rightarrow> Transaction \<Rightarrow> bool" where
  "getProxyAddress_isFunding st tx =
     (isProxyData (dataRaw tx) None (Some FUND)
      \<or> isOwnAddress st (sender tx)
      \<or> list_ex (\<lambda>proxy. recipient tx = proxy) (allProxies st))"

definition getProxyAddress :: "Stores \<Rightarrow> Transaction \<Rightarrow> string" where
  "getProxyAddress st tx = (if getProxyAddress_isFunding st tx then recipient tx else sender tx)"

subsection \<open>Correlation matcher\<close>

text \<open>
  The inner dictionary \<^verbatim>\<open>{[transactionHash: string]: Transaction}\<close> is an association
  list in the enumeration order of its properties (for keys that are not array indices:
  insertion order); \<^verbatim>\<open>Object.values\<close> lists the values in that order.
\<close>

type_synonym TransactionsByHash = "(string \<times> Transaction) list"

definition Object_values :: "TransactionsByHash \<Rightarrow> Transaction list" where
  "Object_values obj = map snd obj"

text \<open>
  Lines 100 to 106, \<^emph>\<open>is the redeeming tx later?\<close>: the comparison of a funding \<open>tx\<close>
  with a candidate \<open>proxyTx\<close>. \<open>the\<close> is only applied under the truthiness test.
\<close>

definition isRedeemingLater :: "Transaction \<Rightarrow> Transaction \<Rightarrow> bool" where
  "isRedeemingLater tx proxyTx =
     (if truthyNumber (timestamp tx) \<and> truthyNumber (timestamp proxyTx)
      then the (timestamp tx) < the (timestamp proxyTx)
      else if truthyNumber (blockHeight tx) \<and> truthyNumber (blockHeight proxyTx)
      then the (blockHeight tx) < the (blockHeight proxyTx)
      else validityStartHeight tx \<le> validityStartHeight proxyTx)"

text \<open>Lines 117 to 123: the comparison of a redeeming \<open>tx\<close> with a candidate \<open>proxyTx\<close>.\<close>

definition isFundingEarlier :: "Transaction \<Rightarrow> Transaction \<Rightarrow> bool" where
  "isFundingEarlier tx proxyTx =
     (if truthyNumber (timestamp tx) \<and> truthyNumber (timestamp proxyTx)
      then the (timestamp tx) > the (timestamp proxyTx)
      else if truthyNumber (blockHeight tx) \<and> truthyNumber (blockHeight proxyTx)
      then the (blockHeight tx) > the (blockHeight proxyTx)
      else validityStartHeight tx \<ge> validityStartHeight proxyTx)"

text \<open>The predicate of the \<^verbatim>\<open>filter\<close> of lines 86 to 132.\<close>

definition isPotentialRelatedTx ::
  "Stores \<Rightarrow> Transaction \<Rightarrow> string \<Rightarrow> bool \<Rightarrow> bool \<Rightarrow> Transaction \<Rightarrow> bool" where
  "isPotentialRelatedTx st tx proxyAddress isCashlink isFunding proxyTx =
     (\<not> truthyString (relatedTransactionHash proxyTx)
      \<and> state proxyTx \<noteq> INVALIDATED
      \<and> state proxyTx \<noteq> EXPIRED
      \<and> (isOwnAddress st (sender tx) \<or> isOwnAddress st (recipient tx)
          \<or> isOwnAddress st (sender proxyTx) \<or> isOwnAddress st (recipient proxyTx))
      \<and> (if isFunding
          then (sender proxyTx = proxyAddress
                \<and> isRedeemingLater tx proxyTx
                \<and> (if isCashlink
                    then txValue tx \<ge> txValue proxyTx + fee proxyTx
                    else txValue tx = txValue proxyTx + fee proxyTx))
          else (recipient proxyTx = proxyAddress
                \<and> isFundingEarlier tx proxyTx
                \<and> (if isCashlink
                    then txValue tx + fee tx \<le> txValue proxyTx
                    else txValue tx + fee tx = txValue proxyTx))))"

definition potentialRelatedTxs ::
  "Stores \<Rightarrow> Transaction \<Rightarrow> string \<Rightarrow> Transaction list \<Rightarrow> Transaction list" where
  "potentialRelatedTxs st tx proxyAddress proxyTransactions =
     filter (isPotentialRelatedTx st tx proxyAddress
               (isProxyData (dataRaw tx) (Some CASHLINK) None) (proxyAddress = recipient tx))
       proxyTransactions"

definition isCloser :: "bool \<Rightarrow> int \<Rightarrow> int \<Rightarrow> bool" where
  "isCloser isFunding checkedValue currentBest =
     (if isFunding then checkedValue < currentBest else checkedValue > currentBest)"

text \<open>The body of the loop of lines 142 to 151: one candidate against the current best.\<close>

definition pickCloser :: "bool \<Rightarrow> Transaction option \<Rightarrow> Transaction \<Rightarrow> Transaction option" where
  "pickCloser isFunding relatedTx potentialRelatedTx =
     (case relatedTx of
        None \<Rightarrow> Some potentialRelatedTx
      | Some best \<Rightarrow>
          if (if truthyNumber (timestamp best) \<and> truthyNumber (timestamp potentialRelatedTx)
              then isCloser isFunding (the (timestamp potentialRelatedTx)) (the (timestamp best))
              else if truthyNumber (blockHeight best) \<and> truthyNumber (blockHeight potentialRelatedTx)
              then isCloser isFunding (the (blockHeight potentialRelatedTx)) (the (blockHeight best))
              else isCloser isFunding (validityStartHeight potentialRelatedTx) (validityStartHeight best))
          then Some potentialRelatedTx
          else Some best)"

text \<open>The heuristic search: the filter, then the loop, starting from \<^verbatim>\<open>undefined\<close>.\<close>

definition findRelatedTx :: "Stores \<Rightarrow> Transaction \<Rightarrow> string \<Rightarrow> Transaction list \<Rightarrow> Transaction option" where
  "findRelatedTx st tx proxyAddress proxyTransactions =
     foldl (pickCloser (proxyAddress = recipient tx)) None
       (potentialRelatedTxs st tx proxyAddress proxyTransactions)"

text \<open>
  The ordering field on which the loop compares a pair of transactions \<open>a\<close> and \<open>b\<close>,
  read on \<open>x\<close>: the timestamp if both have one, else the block height if both have one,
  else the validity start height. It names the field in the statements about the loop;
  \<open>pickCloser\<close> above is the code.
\<close>

definition mutualOrderingField :: "Transaction \<Rightarrow> Transaction \<Rightarrow> Transaction \<Rightarrow> int" where
  "mutualOrderingField a b x =
     (if truthyNumber (timestamp a) \<and> truthyNumber (timestamp b) then the (timestamp x)
      else if truthyNumber (blockHeight a) \<and> truthyNumber (blockHeight b) then the (blockHeight x)
      else validityStartHeight x)"

text \<open>Lines 157 to 168.\<close>

definition needToSubscribe :: "Stores \<Rightarrow> Transaction \<Rightarrow> Transaction option \<Rightarrow> Transaction list \<Rightarrow> bool" where
  "needToSubscribe st tx relatedTx proxyTransactions =
     (case relatedTx of
        None \<Rightarrow> True
      | Some related \<Rightarrow>
          list_ex (\<lambda>proxyTx.
              (\<not> truthyString (relatedTransactionHash proxyTx)
               \<and> transactionHash proxyTx \<noteq> transactionHash tx
               \<and> transactionHash proxyTx \<noteq> transactionHash related)
              \<or> (state proxyTx \<noteq> CONFIRMED
                  \<and> \<not> isOwnAddress st (sender proxyTx) \<and> \<not> isOwnAddress st (recipient proxyTx)))
            proxyTransactions)"

record HandleResult =
  relatedTx :: "Transaction option"
  needToSubscribeToProxy :: bool
  proxyStoreCall :: ProxyStoreCall

text \<open>
  \<^verbatim>\<open>handleProxyTransaction\<close>. \<^verbatim>\<open>Object.values(knownProxyTransactions[proxyAddress])\<close>
  throws a TypeError when the dictionary has no entry for the proxy address
  (\<^verbatim>\<open>Object.values(undefined)\<close>); an array is always truthy, so the alternative
  \<^verbatim>\<open>|| [tx]\<close> of line 64 is never taken.
\<close>

definition handleProxyTransaction ::
  "Stores \<Rightarrow> Transaction \<Rightarrow> (string \<rightharpoonup> TransactionsByHash) \<Rightarrow> error + HandleResult" where
  "handleProxyTransaction st tx knownProxyTransactions =
     (let proxyAddress = getProxyAddress st tx in
      case knownProxyTransactions proxyAddress of
        None \<Rightarrow> Inl TypeError
      | Some obj \<Rightarrow>
          let proxyTransactions = Object_values obj;
              isFunding = (proxyAddress = recipient tx);
              related =
                (if truthyString (relatedTransactionHash tx)
                 then find (\<lambda>proxyTx. Some (transactionHash proxyTx) = relatedTransactionHash tx)
                        proxyTransactions
                 else findRelatedTx st tx proxyAddress proxyTransactions);
              needToSubscribeToProxy = needToSubscribe st tx related proxyTransactions
          in Inr \<lparr> relatedTx = related,
                   needToSubscribeToProxy = needToSubscribeToProxy,
                   proxyStoreCall =
                     (if needToSubscribeToProxy
                      then (if isFunding then AddFundedProxy proxyAddress
                            else AddClaimedProxy proxyAddress)
                      else RemoveProxy proxyAddress) \<rparr>)"

text \<open>A transaction with the given properties, for the concrete scenarios below.\<close>

definition mkTx ::
  "string \<Rightarrow> string \<Rightarrow> string \<Rightarrow> int \<Rightarrow> int \<Rightarrow> int option \<Rightarrow> int option \<Rightarrow> int
     \<Rightarrow> TransactionState \<Rightarrow> string option \<Rightarrow> string \<Rightarrow> Transaction" where
  "mkTx h s r v f ts bh vsh stt related d =
     \<lparr> transactionHash = h, sender = s, recipient = r, txValue = v, fee = f, timestamp = ts,
       blockHeight = bh, validityStartHeight = vsh, state = stt, relatedTransactionHash = related,
       dataRaw = d \<rparr>"

text \<open>The stores of a wallet that owns the address \<open>ME\<close> and tracks no proxy yet.\<close>

definition myStores :: Stores where
  "myStores = \<lparr> addressInfos = [''ME'' \<mapsto> ()], allProxies = [] \<rparr>"


section \<open>Properties\<close>

subsection \<open>Tag codec\<close>

lemmas codec_defs = proxyTransactionIdentifierToExtraData_def padStart2_def toString16.simps hexDigit_def

lemma ProxyExtraData_values:
  "ProxyExtraData CASHLINK FUND = ''0082809287''"
  "ProxyExtraData CASHLINK REDEEM = ''008b888d8a''"
  "ProxyExtraData HTLC_PROXY FUND = ''00878f8583''"
  "ProxyExtraData HTLC_PROXY REDEEM = ''00878f9183''"
  by (simp_all add: codec_defs)

lemma padStart2_toString16:
  assumes "v < 256"
  shows "padStart2 (toString16 v) = [hexDigit (v div 16), hexDigit (v mod 16)]"
proof (cases "v < 16")
  case True
  then show ?thesis
    by (simp add: toString16.simps padStart2_def hexDigit_def)
next
  case False
  with assms have "v div 16 < 16" by simp
  with False show ?thesis
    by (simp add: toString16.simps [of v] toString16.simps [of "v div 16"] padStart2_def)
qed

lemma foldl_append_concat:
  "foldl (\<lambda>hex v. hex @ f v) acc xs = acc @ concat (map f xs)"
  by (induction xs arbitrary: acc) simp_all

lemma concat_padStart2_toString16:
  "concat (map (\<lambda>v. padStart2 (toString16 v)) (map (\<lambda>c. (of_char c + 63) mod 256) cs))
     = concat (map (\<lambda>v. [hexDigit (v div 16), hexDigit (v mod 16)])
         (map (\<lambda>c. (of_char c + 63) mod 256) cs))"
  by (induction cs) (simp_all add: padStart2_toString16)

lemma extraData_format:
  "proxyTransactionIdentifierToExtraData identifier =
     concat (map (\<lambda>v. [hexDigit (v div 16), hexDigit (v mod 16)])
               (0 # map (\<lambda>c. (of_char c + 63) mod 256) identifier))"
proof -
  have "padStart2 (toString16 0) = [hexDigit 0, hexDigit 0]"
    using padStart2_toString16 [of 0] by simp
  with concat_padStart2_toString16 [of "identifier"] show ?thesis
    by (simp add: proxyTransactionIdentifierToExtraData_def foldl_append_concat comp_def)
qed

lemma toLowerCaseChar_idem: "toLowerCaseChar (toLowerCaseChar c) = toLowerCaseChar c"
  by (simp add: toLowerCaseChar_def)

lemma toLowerCase_idem: "toLowerCase (toLowerCase s) = toLowerCase s"
  by (simp add: toLowerCase_def toLowerCaseChar_idem)

lemma toLowerCase_tags:
  "toLowerCase ''0082809287'' = ''0082809287''"
  "toLowerCase ''008b888d8a'' = ''008b888d8a''"
  "toLowerCase ''00878f8583'' = ''00878f8583''"
  "toLowerCase ''00878f9183'' = ''00878f9183''"
  "toLowerCase [] = []"
  by (simp_all add: toLowerCase_def toLowerCaseChar_def)

lemma ex_ProxyType: "(\<exists>k. P k) = (P CASHLINK \<or> P HTLC_PROXY)"
  by (metis ProxyType.exhaust)

lemma ex_ProxyTransactionDirection: "(\<exists>d. Q d) = (Q FUND \<or> Q REDEEM)"
  by (metis ProxyTransactionDirection.exhaust)

lemma isProxyData_iff:
  "isProxyData data kf df =
     (\<exists>k d. (kf = None \<or> kf = Some k) \<and> (df = None \<or> df = Some d)
        \<and> ProxyExtraData k d = toLowerCase data)"
  by (cases kf; cases df; (cases "the kf")?; (cases "the df")?)
     (auto simp: isProxyData_def Let_def ex_ProxyType ex_ProxyTransactionDirection
           simp del: ProxyExtraData.simps)

lemma ProxyExtraData_inj:
  "(ProxyExtraData k d = ProxyExtraData k' d') = (k = k' \<and> d = d')"
  by (cases k; cases d; cases k'; cases d') (simp_all add: codec_defs)

lemma toLowerCase_ProxyExtraData: "toLowerCase (ProxyExtraData k d) = ProxyExtraData k d"
  by (cases k; cases d) (simp_all add: ProxyExtraData_values toLowerCase_tags del: ProxyExtraData.simps)

lemma isProxyData_tag:
  "isProxyData (ProxyExtraData k d) kf df = ((kf = None \<or> kf = Some k) \<and> (df = None \<or> df = Some d))"
  by (auto simp: isProxyData_iff toLowerCase_ProxyExtraData ProxyExtraData_inj simp del: ProxyExtraData.simps)

lemma isProxyData_toLowerCase: "isProxyData (toLowerCase data) kf df = isProxyData data kf df"
  by (simp add: isProxyData_def toLowerCase_idem)


text \<open>
  Claim C5. Each of the four stored tags is the byte 0x00 followed by one byte
  \<open>charCode c + 63\<close> per character of the identifier (CASH, LINK, HPFD, HPRD), every
  byte written as two lowercase hexadecimal digits. A stored tag passes \<open>isProxyData\<close>
  under a kind filter and a direction filter exactly when each filter is absent or names
  the tag's own kind and direction; the data is lower-cased before it is compared, so
  the upper-case spelling of a tag passes as well.
\<close>

theorem proxy_tags_bit_exact:
  "ProxyExtraData CASHLINK FUND = ''0082809287''
   \<and> ProxyExtraData CASHLINK REDEEM = ''008b888d8a''
   \<and> ProxyExtraData HTLC_PROXY FUND = ''00878f8583''
   \<and> ProxyExtraData HTLC_PROXY REDEEM = ''00878f9183''
   \<and> (\<forall>cs. proxyTransactionIdentifierToExtraData cs =
          concat (map (\<lambda>v. [''0123456789abcdef'' ! (v div 16), ''0123456789abcdef'' ! (v mod 16)])
                    (0 # map (\<lambda>c. (of_char c + 63) mod 256) cs)))
   \<and> (\<forall>k d kf df. isProxyData (ProxyExtraData k d) kf df
          = ((kf = None \<or> kf = Some k) \<and> (df = None \<or> df = Some d)))
   \<and> (\<forall>data kf df. isProxyData (toLowerCase data) kf df = isProxyData data kf df)
   \<and> isProxyData ''0082809287'' (Some CASHLINK) (Some FUND)
   \<and> isProxyData ''008B888D8A'' (Some CASHLINK) (Some REDEEM)
   \<and> isProxyData ''00878F8583'' (Some HTLC_PROXY) (Some FUND)
   \<and> isProxyData ''00878F9183'' (Some HTLC_PROXY) (Some REDEEM)"
proof -
  have fmt: "\<forall>cs. proxyTransactionIdentifierToExtraData cs =
          concat (map (\<lambda>v. [''0123456789abcdef'' ! (v div 16), ''0123456789abcdef'' ! (v mod 16)])
                    (0 # map (\<lambda>c. (of_char c + 63) mod 256) cs))"
    using extraData_format by (simp add: hexDigit_def)
  have low: "toLowerCase ''008B888D8A'' = ''008b888d8a''"
    "toLowerCase ''00878F8583'' = ''00878f8583''"
    "toLowerCase ''00878F9183'' = ''00878f9183''"
    by code_simp+
  have upper: "isProxyData ''0082809287'' (Some CASHLINK) (Some FUND)"
    "isProxyData ''008B888D8A'' (Some CASHLINK) (Some REDEEM)"
    "isProxyData ''00878F8583'' (Some HTLC_PROXY) (Some FUND)"
    "isProxyData ''00878F9183'' (Some HTLC_PROXY) (Some REDEEM)"
    by (simp_all add: isProxyData_iff low toLowerCase_tags ProxyExtraData_values
          del: ProxyExtraData.simps)
  show ?thesis
    using fmt upper
    by (simp add: ProxyExtraData_values isProxyData_tag isProxyData_toLowerCase
          del: ProxyExtraData.simps)
qed

subsection \<open>Direction classifier\<close>

lemma list_ex_eq_mem: "list_ex (\<lambda>y. x = y) ys = (x \<in> set ys)"
  by (induction ys) auto

lemma isProxyData_any_kind:
  "isProxyData data None df = (isProxyData data (Some CASHLINK) df \<or> isProxyData data (Some HTLC_PROXY) df)"
  by (cases df) (auto simp: isProxyData_def Let_def simp del: ProxyExtraData.simps)

text \<open>
  Claim C6. \<open>getProxyAddress\<close> classifies a transaction as funding exactly when its
  extra data is the FUND tag of one of the proxy kinds, or its sender is one of the
  wallet's own addresses, or its recipient is a tracked proxy address. It returns the
  recipient of a funding transaction and the sender of any other (redeeming) one, so
  exactly one of the two outcomes holds.
\<close>

theorem getProxyAddress_classification:
  "(getProxyAddress_isFunding st tx \<longleftrightarrow>
      (isProxyData (dataRaw tx) (Some CASHLINK) (Some FUND)
       \<or> isProxyData (dataRaw tx) (Some HTLC_PROXY) (Some FUND))
      \<or> addressInfos st (sender tx) \<noteq> None
      \<or> recipient tx \<in> set (allProxies st))
   \<and> getProxyAddress st tx = (if getProxyAddress_isFunding st tx then recipient tx else sender tx)
   \<and> ((getProxyAddress_isFunding st tx \<and> getProxyAddress st tx = recipient tx)
        \<noteq> (\<not> getProxyAddress_isFunding st tx \<and> getProxyAddress st tx = sender tx))"
  by (auto simp: getProxyAddress_def getProxyAddress_isFunding_def isOwnAddress_def
        list_ex_eq_mem isProxyData_any_kind)


theorem getProxyAddress_classification_witness:
  "getProxyAddress_isFunding myStores
     (mkTx ''hF'' ''ME'' ''P'' 100 0 None None 9 PENDING None [])
   \<and> getProxyAddress myStores (mkTx ''hF'' ''ME'' ''P'' 100 0 None None 9 PENDING None []) = ''P''
   \<and> \<not> getProxyAddress_isFunding myStores
         (mkTx ''hR'' ''P'' ''X'' 100 0 None None 19 PENDING None ''008b888d8a'')
   \<and> getProxyAddress myStores
         (mkTx ''hR'' ''P'' ''X'' 100 0 None None 19 PENDING None ''008b888d8a'') = ''P''"
  using getProxyAddress_classification
          [of myStores "mkTx ''hF'' ''ME'' ''P'' 100 0 None None 9 PENDING None []"]
        getProxyAddress_classification
          [of myStores "mkTx ''hR'' ''P'' ''X'' 100 0 None None 19 PENDING None ''008b888d8a''"]
  by (simp add: isProxyData_iff ProxyExtraData_inj ProxyExtraData_values toLowerCase_tags
        myStores_def mkTx_def ex_ProxyType ex_ProxyTransactionDirection
        del: ProxyExtraData.simps)

subsection \<open>Correlation matcher: auxiliary facts\<close>

lemmas matcher_defs = handleProxyTransaction_def getProxyAddress_def getProxyAddress_isFunding_def
  isOwnAddress_def myStores_def mkTx_def Object_values_def truthyString_def truthyNumber_def
  findRelatedTx_def potentialRelatedTxs_def isPotentialRelatedTx_def isRedeemingLater_def
  isFundingEarlier_def pickCloser_def isCloser_def needToSubscribe_def isProxyData_def
  toLowerCase_def toLowerCaseChar_def codec_defs Let_def

lemma handleProxyTransaction_entry:
  assumes "known (getProxyAddress st tx) = Some obj"
  shows "handleProxyTransaction st tx known =
     Inr \<lparr> relatedTx =
             (if truthyString (relatedTransactionHash tx)
              then find (\<lambda>proxyTx. Some (transactionHash proxyTx) = relatedTransactionHash tx)
                     (Object_values obj)
              else findRelatedTx st tx (getProxyAddress st tx) (Object_values obj)),
           needToSubscribeToProxy =
             needToSubscribe st tx
               (if truthyString (relatedTransactionHash tx)
                then find (\<lambda>proxyTx. Some (transactionHash proxyTx) = relatedTransactionHash tx)
                       (Object_values obj)
                else findRelatedTx st tx (getProxyAddress st tx) (Object_values obj))
               (Object_values obj),
           proxyStoreCall =
             (if needToSubscribe st tx
                   (if truthyString (relatedTransactionHash tx)
                    then find (\<lambda>proxyTx. Some (transactionHash proxyTx) = relatedTransactionHash tx)
                           (Object_values obj)
                    else findRelatedTx st tx (getProxyAddress st tx) (Object_values obj))
                   (Object_values obj)
              then (if getProxyAddress st tx = recipient tx
                    then AddFundedProxy (getProxyAddress st tx)
                    else AddClaimedProxy (getProxyAddress st tx))
              else RemoveProxy (getProxyAddress st tx)) \<rparr>"
  using assms by (simp add: handleProxyTransaction_def Let_def)

lemma handleProxyTransaction_heuristic:
  assumes "\<not> truthyString (relatedTransactionHash tx)"
    and "known (getProxyAddress st tx) = Some obj"
  shows "\<exists>res. handleProxyTransaction st tx known = Inr res
           \<and> relatedTx res = findRelatedTx st tx (getProxyAddress st tx) (Object_values obj)"
  using assms by (simp add: handleProxyTransaction_entry)

lemma needToSubscribe_iff:
  "needToSubscribe st tx rel txs \<longleftrightarrow>
     rel = None
     \<or> (\<exists>p\<in>set txs. \<not> truthyString (relatedTransactionHash p)
            \<and> transactionHash p \<noteq> transactionHash tx
            \<and> (\<forall>r. rel = Some r \<longrightarrow> transactionHash p \<noteq> transactionHash r))
     \<or> (\<exists>p\<in>set txs. state p \<noteq> CONFIRMED
            \<and> \<not> isOwnAddress st (sender p) \<and> \<not> isOwnAddress st (recipient p))"
  by (cases rel) (auto simp: needToSubscribe_def list_ex_iff)

lemma foldl_pickCloser_mem:
  "foldl (pickCloser f) acc xs = Some r \<Longrightarrow> r \<in> set xs \<or> acc = Some r"
proof (induction xs arbitrary: acc)
  case Nil
  then show ?case by simp
next
  case (Cons x xs)
  from Cons.IH [OF Cons.prems [simplified]] show ?case
    by (auto simp: pickCloser_def split: option.splits if_splits)
qed

lemma findRelatedTx_mem:
  "findRelatedTx st tx p txs = Some r \<Longrightarrow> r \<in> set (potentialRelatedTxs st tx p txs)"
  unfolding findRelatedTx_def using foldl_pickCloser_mem by fastforce

lemma potentialRelatedTxs_iff:
  "c \<in> set (potentialRelatedTxs st tx p txs) \<longleftrightarrow>
     c \<in> set txs \<and> isPotentialRelatedTx st tx p (isProxyData (dataRaw tx) (Some CASHLINK) None)
        (p = recipient tx) c"
  by (simp add: potentialRelatedTxs_def)

lemma getProxyAddress_cases:
  "getProxyAddress st tx = recipient tx \<or> getProxyAddress st tx = sender tx"
  by (simp add: getProxyAddress_def)

lemma pickCloser_Some:
  "pickCloser f (Some best) c =
     Some (if isCloser f (mutualOrderingField best c c) (mutualOrderingField best c best)
           then c else best)"
  by (simp add: pickCloser_def mutualOrderingField_def)

lemma foldl_step_least:
  fixes k :: "'a \<Rightarrow> int"
  shows "(\<forall>a\<in>set (r0 # xs). \<forall>b\<in>set (r0 # xs). step (Some a) b = Some (if k b < k a then b else a))
    \<Longrightarrow> \<exists>r. foldl step (Some r0) xs = Some r \<and> r \<in> set (r0 # xs) \<and> (\<forall>c\<in>set (r0 # xs). k r \<le> k c)"
proof (induction xs arbitrary: r0)
  case Nil
  then show ?case by simp
next
  case (Cons x xs)
  define r1 where "r1 = (if k x < k r0 then x else r0)"
  have step: "step (Some r0) x = Some r1"
    using Cons.prems by (simp add: r1_def)
  have sub: "set (r1 # xs) \<subseteq> set (r0 # x # xs)"
    by (auto simp: r1_def)
  have "\<forall>a\<in>set (r1 # xs). \<forall>b\<in>set (r1 # xs). step (Some a) b = Some (if k b < k a then b else a)"
    using Cons.prems sub by blast
  from Cons.IH [OF this] obtain r where
    r: "foldl step (Some r1) xs = Some r" "r \<in> set (r1 # xs)" "\<forall>c\<in>set (r1 # xs). k r \<le> k c"
    by blast
  have "k r \<le> k r1" using r(3) by simp
  moreover have "k r1 \<le> k r0" "k r1 \<le> k x" by (simp_all add: r1_def)
  ultimately have "\<forall>c\<in>set (r0 # x # xs). k r \<le> k c"
    using r(3) by auto
  with r(1,2) sub step show ?case by auto
qed

lemma foldl_pickCloser_least:
  assumes "cands \<noteq> []"
    and "\<forall>a\<in>set cands. \<forall>b\<in>set cands.
           mutualOrderingField a b a = k a \<and> mutualOrderingField a b b = k b"
  shows "\<exists>r. foldl (pickCloser f) None cands = Some r \<and> r \<in> set cands
           \<and> (\<forall>c\<in>set cands. if f then k r \<le> k c else k c \<le> k r)"
proof -
  from assms(1) obtain x xs where cands: "cands = x # xs" by (cases cands) auto
  have start: "foldl (pickCloser f) None cands = foldl (pickCloser f) (Some x) xs"
    by (simp add: cands pickCloser_def)
  show ?thesis
  proof (cases f)
    case True
    have "\<forall>a\<in>set (x # xs). \<forall>b\<in>set (x # xs).
            pickCloser f (Some a) b = Some (if k b < k a then b else a)"
      using assms(2) True by (simp add: cands pickCloser_Some isCloser_def)
    from foldl_step_least [of x xs "pickCloser f" k, OF this] show ?thesis
      using True start cands by simp
  next
    case False
    have "\<forall>a\<in>set (x # xs). \<forall>b\<in>set (x # xs).
            pickCloser f (Some a) b = Some (if - k b < - k a then b else a)"
      using assms(2) False by (simp add: cands pickCloser_Some isCloser_def)
    from foldl_step_least [of x xs "pickCloser f" "\<lambda>t. - k t", OF this] show ?thesis
      using False start cands by simp
  qed
qed


subsection \<open>Correlation matcher: the entry of the proxy address\<close>

text \<open>
  Claim C7 says that no input makes the matcher throw, in particular not a dictionary
  without an entry for the proxy address. The code evaluates
  \<^verbatim>\<open>Object.values(knownProxyTransactions[proxyAddress])\<close> first: without an entry this
  is \<^verbatim>\<open>Object.values(undefined)\<close>, a TypeError, for every transaction and every state of
  the stores. The alternative \<^verbatim>\<open>|| [tx]\<close> that was meant for this case is never reached.
\<close>

theorem handleProxyTransaction_missing_entry_throws:
  "handleProxyTransaction st tx Map.empty = Inl TypeError"
  by (simp add: handleProxyTransaction_def)


text \<open>
  Claim C9. When \<open>relatedTransactionHash\<close> of \<open>tx\<close> is set (a non-empty string), the
  related transaction is the first known transaction at the proxy address with exactly
  that hash, or none if there is no such transaction. The result depends on the hash
  and on the known transactions only: no filter and no tie-break is applied.
\<close>

theorem related_hash_lookup:
  assumes "relatedTransactionHash tx = Some h" and "h \<noteq> []"
    and "known (getProxyAddress st tx) = Some obj"
  shows "\<exists>res. handleProxyTransaction st tx known = Inr res
           \<and> relatedTx res = find (\<lambda>proxyTx. transactionHash proxyTx = h) (Object_values obj)"
  using assms by (simp add: handleProxyTransaction_entry truthyString_def)

theorem related_hash_lookup_witness:
  "handleProxyTransaction myStores
     (mkTx ''hR'' ''P'' ''X'' 60 1 (Some 2000) (Some 20) 19 CONFIRMED (Some ''hF'') ''008b888d8a'')
     [''P'' \<mapsto> [(''hF'', mkTx ''hF'' ''ME'' ''P'' 100 0 (Some 1000) (Some 10) 9 INVALIDATED (Some ''hR'') ''0082809287''),
                  (''hR'', mkTx ''hR'' ''P'' ''X'' 60 1 (Some 2000) (Some 20) 19 CONFIRMED (Some ''hF'') ''008b888d8a'')]]
   = Inr \<lparr> relatedTx = Some (mkTx ''hF'' ''ME'' ''P'' 100 0 (Some 1000) (Some 10) 9 INVALIDATED (Some ''hR'') ''0082809287''),
           needToSubscribeToProxy = False, proxyStoreCall = RemoveProxy ''P'' \<rparr>"
proof -
  let ?R = "mkTx ''hR'' ''P'' ''X'' 60 1 (Some 2000) (Some 20) 19 CONFIRMED (Some ''hF'') ''008b888d8a''"
  let ?F = "mkTx ''hF'' ''ME'' ''P'' 100 0 (Some 1000) (Some 10) 9 INVALIDATED (Some ''hR'') ''0082809287''"
  have p: "getProxyAddress myStores ?R = ''P''"
    by (simp add: matcher_defs)
  have "\<exists>res. handleProxyTransaction myStores ?R [''P'' \<mapsto> [(''hF'', ?F), (''hR'', ?R)]] = Inr res
           \<and> relatedTx res = find (\<lambda>proxyTx. transactionHash proxyTx = ''hF'') (Object_values [(''hF'', ?F), (''hR'', ?R)])"
    by (rule related_hash_lookup [where h = "''hF''"]) (simp_all add: p, simp add: mkTx_def)
  then show ?thesis
    by (simp add: matcher_defs)
qed


subsection \<open>Correlation matcher: subscription decision\<close>

text \<open>
  Claim C4. Whenever the proxy address has an entry, the proxy must stay subscribed
  exactly when no related transaction was found, or a known transaction other than
  \<open>tx\<close> and the related transaction (compared by hash) has no related transaction
  hash yet, or a known transaction is not CONFIRMED while neither its sender nor its
  recipient is an own address. When it must stay subscribed the proxy is reported as
  funded for a funding \<open>tx\<close> and as claimed otherwise; when not, it is removed. With F
  and R linked to each other and both CONFIRMED the proxy is removed; with only an
  unconfirmed F known it stays subscribed.
\<close>

theorem needsSubscription_decision:
  "(\<forall>st tx known obj. known (getProxyAddress st tx) = Some obj \<longrightarrow>
      (\<exists>res. handleProxyTransaction st tx known = Inr res
         \<and> (needToSubscribeToProxy res \<longleftrightarrow>
               relatedTx res = None
               \<or> (\<exists>p\<in>set (Object_values obj). \<not> truthyString (relatedTransactionHash p)
                     \<and> transactionHash p \<noteq> transactionHash tx
                     \<and> (\<forall>r. relatedTx res = Some r \<longrightarrow> transactionHash p \<noteq> transactionHash r))
               \<or> (\<exists>p\<in>set (Object_values obj). state p \<noteq> CONFIRMED
                     \<and> \<not> isOwnAddress st (sender p) \<and> \<not> isOwnAddress st (recipient p)))
         \<and> proxyStoreCall res =
               (if needToSubscribeToProxy res
                then (if getProxyAddress st tx = recipient tx
                      then AddFundedProxy (getProxyAddress st tx)
                      else AddClaimedProxy (getProxyAddress st tx))
                else RemoveProxy (getProxyAddress st tx))))
   \<and> handleProxyTransaction myStores
        (mkTx ''hR'' ''P'' ''X'' 100 0 (Some 2000) (Some 20) 19 CONFIRMED (Some ''hF'') ''008b888d8a'')
        [''P'' \<mapsto> [(''hF'', mkTx ''hF'' ''ME'' ''P'' 100 0 (Some 1000) (Some 10) 9 CONFIRMED (Some ''hR'') ''0082809287''),
                     (''hR'', mkTx ''hR'' ''P'' ''X'' 100 0 (Some 2000) (Some 20) 19 CONFIRMED (Some ''hF'') ''008b888d8a'')]]
      = Inr \<lparr> relatedTx = Some (mkTx ''hF'' ''ME'' ''P'' 100 0 (Some 1000) (Some 10) 9 CONFIRMED (Some ''hR'') ''0082809287''),
              needToSubscribeToProxy = False, proxyStoreCall = RemoveProxy ''P'' \<rparr>
   \<and> handleProxyTransaction myStores
        (mkTx ''hF'' ''ME'' ''P'' 100 0 (Some 1000) (Some 10) 9 CONFIRMED (Some ''hR'') ''0082809287'')
        [''P'' \<mapsto> [(''hF'', mkTx ''hF'' ''ME'' ''P'' 100 0 (Some 1000) (Some 10) 9 CONFIRMED (Some ''hR'') ''0082809287''),
                     (''hR'', mkTx ''hR'' ''P'' ''X'' 100 0 (Some 2000) (Some 20) 19 CONFIRMED (Some ''hF'') ''008b888d8a'')]]
      = Inr \<lparr> relatedTx = Some (mkTx ''hR'' ''P'' ''X'' 100 0 (Some 2000) (Some 20) 19 CONFIRMED (Some ''hF'') ''008b888d8a''),
              needToSubscribeToProxy = False, proxyStoreCall = RemoveProxy ''P'' \<rparr>
   \<and> handleProxyTransaction myStores
        (mkTx ''hF'' ''ME'' ''P'' 100 0 None None 9 PENDING None ''0082809287'')
        [''P'' \<mapsto> [(''hF'', mkTx ''hF'' ''ME'' ''P'' 100 0 None None 9 PENDING None ''0082809287'')]]
      = Inr \<lparr> relatedTx = None, needToSubscribeToProxy = True,
              proxyStoreCall = AddFundedProxy ''P'' \<rparr>"
proof -
  have general: "\<forall>st tx known obj. known (getProxyAddress st tx) = Some obj \<longrightarrow>
      (\<exists>res. handleProxyTransaction st tx known = Inr res
         \<and> (needToSubscribeToProxy res \<longleftrightarrow>
               relatedTx res = None
               \<or> (\<exists>p\<in>set (Object_values obj). \<not> truthyString (relatedTransactionHash p)
                     \<and> transactionHash p \<noteq> transactionHash tx
                     \<and> (\<forall>r. relatedTx res = Some r \<longrightarrow> transactionHash p \<noteq> transactionHash r))
               \<or> (\<exists>p\<in>set (Object_values obj). state p \<noteq> CONFIRMED
                     \<and> \<not> isOwnAddress st (sender p) \<and> \<not> isOwnAddress st (recipient p)))
         \<and> proxyStoreCall res =
               (if needToSubscribeToProxy res
                then (if getProxyAddress st tx = recipient tx
                      then AddFundedProxy (getProxyAddress st tx)
                      else AddClaimedProxy (getProxyAddress st tx))
                else RemoveProxy (getProxyAddress st tx)))"
    by (intro allI impI) (simp add: handleProxyTransaction_entry needToSubscribe_iff)
  have matched_R: "handleProxyTransaction myStores
        (mkTx ''hR'' ''P'' ''X'' 100 0 (Some 2000) (Some 20) 19 CONFIRMED (Some ''hF'') ''008b888d8a'')
        [''P'' \<mapsto> [(''hF'', mkTx ''hF'' ''ME'' ''P'' 100 0 (Some 1000) (Some 10) 9 CONFIRMED (Some ''hR'') ''0082809287''),
                     (''hR'', mkTx ''hR'' ''P'' ''X'' 100 0 (Some 2000) (Some 20) 19 CONFIRMED (Some ''hF'') ''008b888d8a'')]]
      = Inr \<lparr> relatedTx = Some (mkTx ''hF'' ''ME'' ''P'' 100 0 (Some 1000) (Some 10) 9 CONFIRMED (Some ''hR'') ''0082809287''),
              needToSubscribeToProxy = False, proxyStoreCall = RemoveProxy ''P'' \<rparr>"
    by (simp add: matcher_defs)
  have matched_F: "handleProxyTransaction myStores
        (mkTx ''hF'' ''ME'' ''P'' 100 0 (Some 1000) (Some 10) 9 CONFIRMED (Some ''hR'') ''0082809287'')
        [''P'' \<mapsto> [(''hF'', mkTx ''hF'' ''ME'' ''P'' 100 0 (Some 1000) (Some 10) 9 CONFIRMED (Some ''hR'') ''0082809287''),
                     (''hR'', mkTx ''hR'' ''P'' ''X'' 100 0 (Some 2000) (Some 20) 19 CONFIRMED (Some ''hF'') ''008b888d8a'')]]
      = Inr \<lparr> relatedTx = Some (mkTx ''hR'' ''P'' ''X'' 100 0 (Some 2000) (Some 20) 19 CONFIRMED (Some ''hF'') ''008b888d8a''),
              needToSubscribeToProxy = False, proxyStoreCall = RemoveProxy ''P'' \<rparr>"
    by (simp add: matcher_defs)
  have only_F: "handleProxyTransaction myStores
        (mkTx ''hF'' ''ME'' ''P'' 100 0 None None 9 PENDING None ''0082809287'')
        [''P'' \<mapsto> [(''hF'', mkTx ''hF'' ''ME'' ''P'' 100 0 None None 9 PENDING None ''0082809287'')]]
      = Inr \<lparr> relatedTx = None, needToSubscribeToProxy = True,
              proxyStoreCall = AddFundedProxy ''P'' \<rparr>"
    by (simp add: matcher_defs)
  from general matched_R matched_F only_F show ?thesis
    by (intro conjI)
qed

theorem needsSubscription_decision_witness:
  "\<exists>res. handleProxyTransaction myStores
        (mkTx ''hR'' ''P'' ''X'' 100 0 None None 19 PENDING None ''008b888d8a'')
        [''P'' \<mapsto> [(''hR'', mkTx ''hR'' ''P'' ''X'' 100 0 None None 19 PENDING None ''008b888d8a'')]]
      = Inr res \<and> needToSubscribeToProxy res \<and> proxyStoreCall res = AddClaimedProxy ''P''"
proof -
  let ?R = "mkTx ''hR'' ''P'' ''X'' 100 0 None None 19 PENDING None ''008b888d8a''"
  have p: "getProxyAddress myStores ?R = ''P''"
    by (simp add: matcher_defs)
  have e: "[''P'' \<mapsto> [(''hR'', ?R)]] (getProxyAddress myStores ?R) = Some [(''hR'', ?R)]"
    by (simp add: p)
  from needsSubscription_decision
         [THEN conjunct1, rule_format,
          where st = myStores and tx = "?R" and known = "[''P'' \<mapsto> [(''hR'', ?R)]]", OF e]
  obtain res where res: "handleProxyTransaction myStores ?R [''P'' \<mapsto> [(''hR'', ?R)]] = Inr res"
    and needs: "needToSubscribeToProxy res \<longleftrightarrow>
               relatedTx res = None
               \<or> (\<exists>p\<in>set (Object_values [(''hR'', ?R)]). \<not> truthyString (relatedTransactionHash p)
                     \<and> transactionHash p \<noteq> transactionHash ?R
                     \<and> (\<forall>r. relatedTx res = Some r \<longrightarrow> transactionHash p \<noteq> transactionHash r))
               \<or> (\<exists>p\<in>set (Object_values [(''hR'', ?R)]). state p \<noteq> CONFIRMED
                     \<and> \<not> isOwnAddress myStores (sender p) \<and> \<not> isOwnAddress myStores (recipient p))"
    and call: "proxyStoreCall res =
               (if needToSubscribeToProxy res
                then (if getProxyAddress myStores ?R = recipient ?R
                      then AddFundedProxy (getProxyAddress myStores ?R)
                      else AddClaimedProxy (getProxyAddress myStores ?R))
                else RemoveProxy (getProxyAddress myStores ?R))"
    by blast
  have "needToSubscribeToProxy res"
    unfolding needs by (simp add: Object_values_def mkTx_def myStores_def isOwnAddress_def)
  with res call show ?thesis
    by (simp add: p) (simp add: mkTx_def)
qed

subsection \<open>Correlation matcher: the transaction itself as a candidate\<close>

text \<open>
  Claim C8, amended. The filter has no test that removes \<open>tx\<close> from the candidates;
  it is the role check that does so, for a transaction whose sender and recipient
  differ. For every such \<open>tx\<close> on which the heuristic search runs, \<open>tx\<close> is not among the
  candidates, and the related transaction is a known transaction that differs from
  \<open>tx\<close> in its sender or in its recipient.
\<close>

theorem related_is_never_tx_itself:
  assumes "sender tx \<noteq> recipient tx"
    and "\<not> truthyString (relatedTransactionHash tx)"
    and "known (getProxyAddress st tx) = Some obj"
  shows "tx \<notin> set (potentialRelatedTxs st tx (getProxyAddress st tx) (Object_values obj))
     \<and> (\<exists>res. handleProxyTransaction st tx known = Inr res
           \<and> relatedTx res \<noteq> Some tx
           \<and> (\<forall>r. relatedTx res = Some r \<longrightarrow>
                  r \<in> set (Object_values obj)
                  \<and> (sender r \<noteq> sender tx \<or> recipient r \<noteq> recipient tx)))"
proof -
  let ?p = "getProxyAddress st tx"
  have differs: "sender c \<noteq> sender tx \<or> recipient c \<noteq> recipient tx"
    if "c \<in> set (potentialRelatedTxs st tx ?p (Object_values obj))" for c
  proof (cases "?p = recipient tx")
    case True
    with that have "sender c = recipient tx"
      by (simp add: potentialRelatedTxs_iff isPotentialRelatedTx_def)
    with assms(1) show ?thesis by auto
  next
    case False
    with getProxyAddress_cases [of st tx] have "?p = sender tx" by simp
    with that False have "recipient c = sender tx"
      by (simp add: potentialRelatedTxs_iff isPotentialRelatedTx_def)
    with assms(1) show ?thesis by auto
  qed
  then have notin: "tx \<notin> set (potentialRelatedTxs st tx ?p (Object_values obj))"
    by blast
  from handleProxyTransaction_heuristic [where known = known and st = st, OF assms(2,3)] obtain res where
    res: "handleProxyTransaction st tx known = Inr res"
      "relatedTx res = findRelatedTx st tx ?p (Object_values obj)"
    by blast
  have "r \<in> set (Object_values obj) \<and> (sender r \<noteq> sender tx \<or> recipient r \<noteq> recipient tx)"
    if "relatedTx res = Some r" for r
  proof -
    from that res(2) have "r \<in> set (potentialRelatedTxs st tx ?p (Object_values obj))"
      by (simp add: findRelatedTx_mem)
    then show ?thesis
      using differs by (simp add: potentialRelatedTxs_iff)
  qed
  then have "relatedTx res \<noteq> Some tx
           \<and> (\<forall>r. relatedTx res = Some r \<longrightarrow>
                  r \<in> set (Object_values obj)
                  \<and> (sender r \<noteq> sender tx \<or> recipient r \<noteq> recipient tx))"
    by blast
  with notin res(1) show ?thesis by blast
qed

theorem related_is_never_tx_itself_witness:
  "\<exists>res. handleProxyTransaction myStores
        (mkTx ''hF'' ''ME'' ''P'' 100 0 (Some 1000) (Some 10) 9 CONFIRMED None [])
        [''P'' \<mapsto> [(''hF'', mkTx ''hF'' ''ME'' ''P'' 100 0 (Some 1000) (Some 10) 9 CONFIRMED None []),
                     (''hR'', mkTx ''hR'' ''P'' ''X'' 100 0 (Some 2000) (Some 20) 19 CONFIRMED None [])]]
      = Inr res
      \<and> relatedTx res \<noteq> Some (mkTx ''hF'' ''ME'' ''P'' 100 0 (Some 1000) (Some 10) 9 CONFIRMED None [])"
proof -
  let ?F = "mkTx ''hF'' ''ME'' ''P'' 100 0 (Some 1000) (Some 10) 9 CONFIRMED None []"
  let ?R = "mkTx ''hR'' ''P'' ''X'' 100 0 (Some 2000) (Some 20) 19 CONFIRMED None []"
  have p: "getProxyAddress myStores ?F = ''P''"
    by (simp add: matcher_defs)
  have h1: "sender ?F \<noteq> recipient ?F" by (simp add: mkTx_def)
  have h2: "\<not> truthyString (relatedTransactionHash ?F)" by (simp add: mkTx_def truthyString_def)
  have h3: "[''P'' \<mapsto> [(''hF'', ?F), (''hR'', ?R)]] (getProxyAddress myStores ?F)
              = Some [(''hF'', ?F), (''hR'', ?R)]"
    by (simp add: p)
  from related_is_never_tx_itself
         [where st = myStores and known = "[''P'' \<mapsto> [(''hF'', ?F), (''hR'', ?R)]]", OF h1 h2 h3]
  show ?thesis
    by blast
qed

text \<open>
  Claim C8 as stated fails for a transaction whose sender is its recipient: without a
  timestamp and a block height the comparison \<open>validityStartHeight tx \<le> validityStartHeight tx\<close>
  holds, with fee 0 the amount check holds, and the search returns \<open>tx\<close> itself.
\<close>

theorem self_transfer_matches_itself:
  "relatedTransactionHash (mkTx ''hS'' ''ME'' ''ME'' 10 0 None None 5 PENDING None ''0082809287'') = None
   \<and> handleProxyTransaction myStores
       (mkTx ''hS'' ''ME'' ''ME'' 10 0 None None 5 PENDING None ''0082809287'')
       [''ME'' \<mapsto> [(''hS'', mkTx ''hS'' ''ME'' ''ME'' 10 0 None None 5 PENDING None ''0082809287'')]]
     = Inr \<lparr> relatedTx = Some (mkTx ''hS'' ''ME'' ''ME'' 10 0 None None 5 PENDING None ''0082809287''),
             needToSubscribeToProxy = False, proxyStoreCall = RemoveProxy ''ME'' \<rparr>"
  by (simp add: matcher_defs)

subsection \<open>Correlation matcher: amount check\<close>

lemma potentialRelatedTxs_amount:
  assumes "c \<in> set (potentialRelatedTxs st tx p txs)"
  shows "if isProxyData (dataRaw tx) (Some CASHLINK) None
         then (if p = recipient tx then txValue tx \<ge> txValue c + fee c
               else txValue tx + fee tx \<le> txValue c)
         else (if p = recipient tx then txValue tx = txValue c + fee c
               else txValue tx + fee tx = txValue c)"
  using assms by (auto simp: potentialRelatedTxs_iff isPotentialRelatedTx_def)

text \<open>
  Claim C1. On the heuristic path a known transaction is a candidate exactly when it
  passes the filters of which the amount check is the last: for a \<open>tx\<close> with a cashlink
  tag, \<open>value tx \<ge> value c + fee c\<close> when \<open>tx\<close> is funding and
  \<open>value tx + fee tx \<le> value c\<close> when it is redeeming; for any other \<open>tx\<close> the two
  equalities. Every related transaction the search returns satisfies it. A cashlink
  redeemer of 60 with fee 1 after a funding of 100 is matched; with the HTLC proxy tag
  it is not, and a redeemer of 100 with fee 0 is.
\<close>

theorem amount_check:
  "(\<forall>st tx p txs c.
      (c \<in> set (potentialRelatedTxs st tx p txs)) =
      (c \<in> set txs
       \<and> \<not> truthyString (relatedTransactionHash c)
       \<and> state c \<noteq> INVALIDATED \<and> state c \<noteq> EXPIRED
       \<and> (isOwnAddress st (sender tx) \<or> isOwnAddress st (recipient tx)
           \<or> isOwnAddress st (sender c) \<or> isOwnAddress st (recipient c))
       \<and> (if p = recipient tx then sender c = p \<and> isRedeemingLater tx c
           else recipient c = p \<and> isFundingEarlier tx c)
       \<and> (if isProxyData (dataRaw tx) (Some CASHLINK) None
           then (if p = recipient tx then txValue tx \<ge> txValue c + fee c
                 else txValue tx + fee tx \<le> txValue c)
           else (if p = recipient tx then txValue tx = txValue c + fee c
                 else txValue tx + fee tx = txValue c))))
   \<and> (\<forall>st tx known obj res c.
        \<not> truthyString (relatedTransactionHash tx)
        \<and> known (getProxyAddress st tx) = Some obj
        \<and> handleProxyTransaction st tx known = Inr res
        \<and> relatedTx res = Some c \<longrightarrow>
        (if isProxyData (dataRaw tx) (Some CASHLINK) None
         then (if getProxyAddress st tx = recipient tx then txValue tx \<ge> txValue c + fee c
               else txValue tx + fee tx \<le> txValue c)
         else (if getProxyAddress st tx = recipient tx then txValue tx = txValue c + fee c
               else txValue tx + fee tx = txValue c)))
   \<and> handleProxyTransaction myStores
        (mkTx ''hR'' ''P'' ''ME'' 60 1 (Some 2000) (Some 20) 19 CONFIRMED None ''008b888d8a'')
        [''P'' \<mapsto> [(''hF'', mkTx ''hF'' ''X'' ''P'' 100 0 (Some 1000) (Some 10) 9 CONFIRMED None ''0082809287''),
                     (''hR'', mkTx ''hR'' ''P'' ''ME'' 60 1 (Some 2000) (Some 20) 19 CONFIRMED None ''008b888d8a'')]]
      = Inr \<lparr> relatedTx = Some (mkTx ''hF'' ''X'' ''P'' 100 0 (Some 1000) (Some 10) 9 CONFIRMED None ''0082809287''),
              needToSubscribeToProxy = False, proxyStoreCall = RemoveProxy ''P'' \<rparr>
   \<and> handleProxyTransaction myStores
        (mkTx ''hR'' ''P'' ''ME'' 60 1 (Some 2000) (Some 20) 19 CONFIRMED None ''00878f9183'')
        [''P'' \<mapsto> [(''hF'', mkTx ''hF'' ''X'' ''P'' 100 0 (Some 1000) (Some 10) 9 CONFIRMED None ''00878f8583''),
                     (''hR'', mkTx ''hR'' ''P'' ''ME'' 60 1 (Some 2000) (Some 20) 19 CONFIRMED None ''00878f9183'')]]
      = Inr \<lparr> relatedTx = None, needToSubscribeToProxy = True,
              proxyStoreCall = AddClaimedProxy ''P'' \<rparr>
   \<and> handleProxyTransaction myStores
        (mkTx ''hR'' ''P'' ''ME'' 100 0 (Some 2000) (Some 20) 19 CONFIRMED None ''00878f9183'')
        [''P'' \<mapsto> [(''hF'', mkTx ''hF'' ''X'' ''P'' 100 0 (Some 1000) (Some 10) 9 CONFIRMED None ''00878f8583''),
                     (''hR'', mkTx ''hR'' ''P'' ''ME'' 100 0 (Some 2000) (Some 20) 19 CONFIRMED None ''00878f9183'')]]
      = Inr \<lparr> relatedTx = Some (mkTx ''hF'' ''X'' ''P'' 100 0 (Some 1000) (Some 10) 9 CONFIRMED None ''00878f8583''),
              needToSubscribeToProxy = False, proxyStoreCall = RemoveProxy ''P'' \<rparr>"
proof -
  have filter: "\<forall>st tx p txs c.
      (c \<in> set (potentialRelatedTxs st tx p txs)) =
      (c \<in> set txs
       \<and> \<not> truthyString (relatedTransactionHash c)
       \<and> state c \<noteq> INVALIDATED \<and> state c \<noteq> EXPIRED
       \<and> (isOwnAddress st (sender tx) \<or> isOwnAddress st (recipient tx)
           \<or> isOwnAddress st (sender c) \<or> isOwnAddress st (recipient c))
       \<and> (if p = recipient tx then sender c = p \<and> isRedeemingLater tx c
           else recipient c = p \<and> isFundingEarlier tx c)
       \<and> (if isProxyData (dataRaw tx) (Some CASHLINK) None
           then (if p = recipient tx then txValue tx \<ge> txValue c + fee c
                 else txValue tx + fee tx \<le> txValue c)
           else (if p = recipient tx then txValue tx = txValue c + fee c
                 else txValue tx + fee tx = txValue c)))"
    by (auto simp: potentialRelatedTxs_iff isPotentialRelatedTx_def)
  have result: "\<forall>st tx known obj res c.
        \<not> truthyString (relatedTransactionHash tx)
        \<and> known (getProxyAddress st tx) = Some obj
        \<and> handleProxyTransaction st tx known = Inr res
        \<and> relatedTx res = Some c \<longrightarrow>
        (if isProxyData (dataRaw tx) (Some CASHLINK) None
         then (if getProxyAddress st tx = recipient tx then txValue tx \<ge> txValue c + fee c
               else txValue tx + fee tx \<le> txValue c)
         else (if getProxyAddress st tx = recipient tx then txValue tx = txValue c + fee c
               else txValue tx + fee tx = txValue c))"
  proof (intro allI impI, elim conjE)
    fix st tx known obj res c
    assume a: "\<not> truthyString (relatedTransactionHash tx)"
      "known (getProxyAddress st tx) = Some obj"
      "handleProxyTransaction st tx known = Inr res" "relatedTx res = Some c"
    from handleProxyTransaction_heuristic [where known = known and st = st, OF a(1,2)] a(3,4)
    have "findRelatedTx st tx (getProxyAddress st tx) (Object_values obj) = Some c"
      by auto
    then have "c \<in> set (potentialRelatedTxs st tx (getProxyAddress st tx) (Object_values obj))"
      by (rule findRelatedTx_mem)
    then show "if isProxyData (dataRaw tx) (Some CASHLINK) None
         then (if getProxyAddress st tx = recipient tx then txValue tx \<ge> txValue c + fee c
               else txValue tx + fee tx \<le> txValue c)
         else (if getProxyAddress st tx = recipient tx then txValue tx = txValue c + fee c
               else txValue tx + fee tx = txValue c)"
      by (rule potentialRelatedTxs_amount)
  qed
  have partial: "handleProxyTransaction myStores
        (mkTx ''hR'' ''P'' ''ME'' 60 1 (Some 2000) (Some 20) 19 CONFIRMED None ''008b888d8a'')
        [''P'' \<mapsto> [(''hF'', mkTx ''hF'' ''X'' ''P'' 100 0 (Some 1000) (Some 10) 9 CONFIRMED None ''0082809287''),
                     (''hR'', mkTx ''hR'' ''P'' ''ME'' 60 1 (Some 2000) (Some 20) 19 CONFIRMED None ''008b888d8a'')]]
      = Inr \<lparr> relatedTx = Some (mkTx ''hF'' ''X'' ''P'' 100 0 (Some 1000) (Some 10) 9 CONFIRMED None ''0082809287''),
              needToSubscribeToProxy = False, proxyStoreCall = RemoveProxy ''P'' \<rparr>"
    by (simp add: matcher_defs)
  have exact_none: "handleProxyTransaction myStores
        (mkTx ''hR'' ''P'' ''ME'' 60 1 (Some 2000) (Some 20) 19 CONFIRMED None ''00878f9183'')
        [''P'' \<mapsto> [(''hF'', mkTx ''hF'' ''X'' ''P'' 100 0 (Some 1000) (Some 10) 9 CONFIRMED None ''00878f8583''),
                     (''hR'', mkTx ''hR'' ''P'' ''ME'' 60 1 (Some 2000) (Some 20) 19 CONFIRMED None ''00878f9183'')]]
      = Inr \<lparr> relatedTx = None, needToSubscribeToProxy = True,
              proxyStoreCall = AddClaimedProxy ''P'' \<rparr>"
    by (simp add: matcher_defs)
  have exact_match: "handleProxyTransaction myStores
        (mkTx ''hR'' ''P'' ''ME'' 100 0 (Some 2000) (Some 20) 19 CONFIRMED None ''00878f9183'')
        [''P'' \<mapsto> [(''hF'', mkTx ''hF'' ''X'' ''P'' 100 0 (Some 1000) (Some 10) 9 CONFIRMED None ''00878f8583''),
                     (''hR'', mkTx ''hR'' ''P'' ''ME'' 100 0 (Some 2000) (Some 20) 19 CONFIRMED None ''00878f9183'')]]
      = Inr \<lparr> relatedTx = Some (mkTx ''hF'' ''X'' ''P'' 100 0 (Some 1000) (Some 10) 9 CONFIRMED None ''00878f8583''),
              needToSubscribeToProxy = False, proxyStoreCall = RemoveProxy ''P'' \<rparr>"
    by (simp add: matcher_defs)
  from filter result partial exact_none exact_match show ?thesis
    by (intro conjI)
qed

theorem amount_check_witness:
  "txValue (mkTx ''hR'' ''P'' ''ME'' 60 1 (Some 2000) (Some 20) 19 CONFIRMED None ''008b888d8a'')
     + fee (mkTx ''hR'' ''P'' ''ME'' 60 1 (Some 2000) (Some 20) 19 CONFIRMED None ''008b888d8a'')
   \<le> txValue (mkTx ''hF'' ''X'' ''P'' 100 0 (Some 1000) (Some 10) 9 CONFIRMED None ''0082809287'')"
proof -
  let ?R = "mkTx ''hR'' ''P'' ''ME'' 60 1 (Some 2000) (Some 20) 19 CONFIRMED None ''008b888d8a''"
  let ?F = "mkTx ''hF'' ''X'' ''P'' 100 0 (Some 1000) (Some 10) 9 CONFIRMED None ''0082809287''"
  let ?known = "[''P'' \<mapsto> [(''hF'', ?F), (''hR'', ?R)]]"
  let ?res = "\<lparr> relatedTx = Some ?F, needToSubscribeToProxy = False,
                 proxyStoreCall = RemoveProxy ''P'' \<rparr>"
  have p: "getProxyAddress myStores ?R = ''P''"
    by (simp add: matcher_defs)
  have h1: "\<not> truthyString (relatedTransactionHash ?R)"
    by (simp add: mkTx_def truthyString_def)
  have h2: "?known (getProxyAddress myStores ?R) = Some [(''hF'', ?F), (''hR'', ?R)]"
    by (simp add: p)
  have h3: "handleProxyTransaction myStores ?R ?known = Inr ?res"
    using amount_check by blast
  have h4: "relatedTx ?res = Some ?F" by simp
  have cash: "isProxyData (dataRaw ?R) (Some CASHLINK) None"
    by (simp add: matcher_defs)
  have role: "getProxyAddress myStores ?R \<noteq> recipient ?R"
    by (simp add: p) (simp add: mkTx_def)
  from amount_check [THEN conjunct2, THEN conjunct1, rule_format,
         where st = myStores and tx = "?R" and known = "?known" and res = "?res" and c = "?F",
         OF conjI [OF h1 conjI [OF h2 conjI [OF h3 h4]]]]
  show ?thesis
    using cash role by simp
qed

subsection \<open>Correlation matcher: chronological comparison\<close>

text \<open>
  Claim C3, amended. The filter compares \<open>tx\<close> with a candidate on the timestamp when
  both have one (present and not zero), else on the block height when both have one,
  else on the validity start height. On timestamps and block heights the comparison is
  strict; on validity start heights it is not: the candidate counts as later (earlier)
  when its validity start height is at least (at most) that of \<open>tx\<close>. Every candidate
  that survives the filter satisfies the comparison of its role.
\<close>

theorem chronological_comparison:
  "(timestamp tx = Some a \<and> timestamp c = Some b \<and> a \<noteq> 0 \<and> b \<noteq> 0 \<longrightarrow>
      (isRedeemingLater tx c \<longleftrightarrow> a < b) \<and> (isFundingEarlier tx c \<longleftrightarrow> b < a))
   \<and> (\<not> (truthyNumber (timestamp tx) \<and> truthyNumber (timestamp c))
       \<and> blockHeight tx = Some a \<and> blockHeight c = Some b \<and> a \<noteq> 0 \<and> b \<noteq> 0 \<longrightarrow>
      (isRedeemingLater tx c \<longleftrightarrow> a < b) \<and> (isFundingEarlier tx c \<longleftrightarrow> b < a))
   \<and> (\<not> (truthyNumber (timestamp tx) \<and> truthyNumber (timestamp c))
       \<and> \<not> (truthyNumber (blockHeight tx) \<and> truthyNumber (blockHeight c)) \<longrightarrow>
      (isRedeemingLater tx c \<longleftrightarrow> validityStartHeight tx \<le> validityStartHeight c)
      \<and> (isFundingEarlier tx c \<longleftrightarrow> validityStartHeight c \<le> validityStartHeight tx))
   \<and> (c \<in> set (potentialRelatedTxs st tx p txs) \<longrightarrow>
      (if p = recipient tx then isRedeemingLater tx c else isFundingEarlier tx c))"
proof (intro conjI impI)
  assume "c \<in> set (potentialRelatedTxs st tx p txs)"
  then show "if p = recipient tx then isRedeemingLater tx c else isFundingEarlier tx c"
    by (simp add: potentialRelatedTxs_iff isPotentialRelatedTx_def split: if_splits)
qed (auto simp: isRedeemingLater_def isFundingEarlier_def truthyNumber_def)

theorem chronological_comparison_witness:
  "\<not> isRedeemingLater
       (mkTx ''hF'' ''ME'' ''P'' 100 0 (Some 1000) (Some 10) 9 CONFIRMED None [])
       (mkTx ''hR'' ''P'' ''X'' 100 0 (Some 1000) (Some 20) 19 CONFIRMED None [])
   \<and> \<not> isFundingEarlier
       (mkTx ''hR'' ''P'' ''X'' 100 0 None (Some 20) 19 CONFIRMED None [])
       (mkTx ''hF'' ''ME'' ''P'' 100 0 (Some 1000) (Some 20) 9 CONFIRMED None [])
   \<and> isRedeemingLater
       (mkTx ''hF'' ''ME'' ''P'' 100 0 (Some 1000) (Some 10) 9 CONFIRMED None [])
       (mkTx ''hR'' ''P'' ''X'' 100 0 None None 9 PENDING None [])
   \<and> isRedeemingLater
       (mkTx ''hF'' ''ME'' ''P'' 100 0 (Some 1000) (Some 10) 9 CONFIRMED None [])
       (mkTx ''hR'' ''P'' ''X'' 100 0 (Some 2000) (Some 20) 19 CONFIRMED None [])"
proof -
  let ?F = "mkTx ''hF'' ''ME'' ''P'' 100 0 (Some 1000) (Some 10) 9 CONFIRMED None []"
  let ?R1 = "mkTx ''hR'' ''P'' ''X'' 100 0 (Some 1000) (Some 20) 19 CONFIRMED None []"
  let ?R2 = "mkTx ''hR'' ''P'' ''X'' 100 0 None (Some 20) 19 CONFIRMED None []"
  let ?F2 = "mkTx ''hF'' ''ME'' ''P'' 100 0 (Some 1000) (Some 20) 9 CONFIRMED None []"
  let ?R3 = "mkTx ''hR'' ''P'' ''X'' 100 0 None None 9 PENDING None []"
  let ?R4 = "mkTx ''hR'' ''P'' ''X'' 100 0 (Some 2000) (Some 20) 19 CONFIRMED None []"
  have cand: "?R4 \<in> set (potentialRelatedTxs myStores ?F ''P'' [?F, ?R4])"
    by (simp add: matcher_defs)
  have "\<not> isRedeemingLater ?F ?R1"
    using chronological_comparison [of ?F 1000 ?R1 1000, THEN conjunct1]
    by (simp add: mkTx_def)
  moreover have "\<not> isFundingEarlier ?R2 ?F2"
    using chronological_comparison [of ?R2 20 ?F2 20, THEN conjunct2, THEN conjunct1]
    by (simp add: mkTx_def truthyNumber_def)
  moreover have "isRedeemingLater ?F ?R3"
    using chronological_comparison [of ?F _ ?R3, THEN conjunct2, THEN conjunct2, THEN conjunct1]
    by (simp add: mkTx_def truthyNumber_def)
  moreover have "isRedeemingLater ?F ?R4"
    using chronological_comparison
            [of ?F _ ?R4 _ myStores "''P''" "[?F, ?R4]", THEN conjunct2, THEN conjunct2, THEN conjunct2]
          cand
    by (simp add: mkTx_def)
  ultimately show ?thesis by blast
qed

text \<open>
  Claim C3 as stated fails when the selected field is the validity start height: two
  pending transactions with the same validity start height count as one after the
  other in both directions, and the funding one is matched with the redeeming one.
\<close>

theorem equal_validityStartHeight_counts_as_later:
  "timestamp (mkTx ''hR'' ''P'' ''X'' 100 0 None None 7 PENDING None []) = None
   \<and> blockHeight (mkTx ''hR'' ''P'' ''X'' 100 0 None None 7 PENDING None []) = None
   \<and> validityStartHeight (mkTx ''hF'' ''ME'' ''P'' 100 0 None None 7 PENDING None [])
       = validityStartHeight (mkTx ''hR'' ''P'' ''X'' 100 0 None None 7 PENDING None [])
   \<and> isRedeemingLater (mkTx ''hF'' ''ME'' ''P'' 100 0 None None 7 PENDING None [])
        (mkTx ''hR'' ''P'' ''X'' 100 0 None None 7 PENDING None [])
   \<and> isFundingEarlier (mkTx ''hR'' ''P'' ''X'' 100 0 None None 7 PENDING None [])
        (mkTx ''hF'' ''ME'' ''P'' 100 0 None None 7 PENDING None [])
   \<and> handleProxyTransaction myStores
        (mkTx ''hF'' ''ME'' ''P'' 100 0 None None 7 PENDING None [])
        [''P'' \<mapsto> [(''hF'', mkTx ''hF'' ''ME'' ''P'' 100 0 None None 7 PENDING None []),
                     (''hR'', mkTx ''hR'' ''P'' ''X'' 100 0 None None 7 PENDING None [])]]
      = Inr \<lparr> relatedTx = Some (mkTx ''hR'' ''P'' ''X'' 100 0 None None 7 PENDING None []),
              needToSubscribeToProxy = True, proxyStoreCall = AddFundedProxy ''P'' \<rparr>"
  by (simp add: matcher_defs)

subsection \<open>Correlation matcher: choice among the candidates\<close>

text \<open>
  Claim C10. In the loop a candidate replaces the current best only when it is strictly
  closer on the ordering field available to both; on equality the current best, which
  was enumerated earlier, stays. With two candidates that tie, the first enumerated is
  returned, so the result depends on the enumeration order of the known transactions:
  the same three transactions give F1 in one order and F2 in the other.
\<close>

theorem tie_keeps_earlier_candidate:
  "(\<forall>isFunding best c.
       pickCloser isFunding (Some best) c =
         Some (if isCloser isFunding (mutualOrderingField best c c) (mutualOrderingField best c best)
               then c else best))
   \<and> (\<forall>isFunding v. \<not> isCloser isFunding v v)
   \<and> (\<forall>isFunding best c.
         mutualOrderingField best c c = mutualOrderingField best c best \<longrightarrow>
         pickCloser isFunding (Some best) c = Some best)
   \<and> (\<forall>st tx p txs a b.
         potentialRelatedTxs st tx p txs = [a, b]
         \<and> mutualOrderingField a b b = mutualOrderingField a b a \<longrightarrow>
         findRelatedTx st tx p txs = Some a)
   \<and> handleProxyTransaction myStores
        (mkTx ''hR'' ''P'' ''ME'' 100 0 (Some 2000) (Some 20) 19 CONFIRMED None [])
        [''P'' \<mapsto> [(''hF1'', mkTx ''hF1'' ''X'' ''P'' 100 0 (Some 1000) (Some 10) 9 CONFIRMED None []),
                     (''hF2'', mkTx ''hF2'' ''Y'' ''P'' 100 0 (Some 1000) (Some 10) 8 CONFIRMED None []),
                     (''hR'', mkTx ''hR'' ''P'' ''ME'' 100 0 (Some 2000) (Some 20) 19 CONFIRMED None [])]]
      = Inr \<lparr> relatedTx = Some (mkTx ''hF1'' ''X'' ''P'' 100 0 (Some 1000) (Some 10) 9 CONFIRMED None []),
              needToSubscribeToProxy = True, proxyStoreCall = AddClaimedProxy ''P'' \<rparr>
   \<and> handleProxyTransaction myStores
        (mkTx ''hR'' ''P'' ''ME'' 100 0 (Some 2000) (Some 20) 19 CONFIRMED None [])
        [''P'' \<mapsto> [(''hF2'', mkTx ''hF2'' ''Y'' ''P'' 100 0 (Some 1000) (Some 10) 8 CONFIRMED None []),
                     (''hF1'', mkTx ''hF1'' ''X'' ''P'' 100 0 (Some 1000) (Some 10) 9 CONFIRMED None []),
                     (''hR'', mkTx ''hR'' ''P'' ''ME'' 100 0 (Some 2000) (Some 20) 19 CONFIRMED None [])]]
      = Inr \<lparr> relatedTx = Some (mkTx ''hF2'' ''Y'' ''P'' 100 0 (Some 1000) (Some 10) 8 CONFIRMED None []),
              needToSubscribeToProxy = True, proxyStoreCall = AddClaimedProxy ''P'' \<rparr>"
proof -
  have step: "\<forall>isFunding best c.
       pickCloser isFunding (Some best) c =
         Some (if isCloser isFunding (mutualOrderingField best c c) (mutualOrderingField best c best)
               then c else best)"
    by (simp add: pickCloser_Some)
  have strict: "\<forall>isFunding v. \<not> isCloser isFunding v v"
    by (simp add: isCloser_def)
  have tie: "\<forall>isFunding best c.
         mutualOrderingField best c c = mutualOrderingField best c best \<longrightarrow>
         pickCloser isFunding (Some best) c = Some best"
    by (simp add: pickCloser_Some isCloser_def)
  have two: "\<forall>st tx p txs a b.
         potentialRelatedTxs st tx p txs = [a, b]
         \<and> mutualOrderingField a b b = mutualOrderingField a b a \<longrightarrow>
         findRelatedTx st tx p txs = Some a"
  proof (intro allI impI, elim conjE)
    fix st tx p txs a b
    assume cands: "potentialRelatedTxs st tx p txs = [a, b]"
      and eq: "mutualOrderingField a b b = mutualOrderingField a b a"
    have first: "pickCloser (p = recipient tx) None a = Some a"
      by (simp add: pickCloser_def)
    have second: "pickCloser (p = recipient tx) (Some a) b = Some a"
      using eq by (simp add: pickCloser_Some isCloser_def)
    show "findRelatedTx st tx p txs = Some a"
      by (simp add: findRelatedTx_def cands first second)
  qed
  have order1: "handleProxyTransaction myStores
        (mkTx ''hR'' ''P'' ''ME'' 100 0 (Some 2000) (Some 20) 19 CONFIRMED None [])
        [''P'' \<mapsto> [(''hF1'', mkTx ''hF1'' ''X'' ''P'' 100 0 (Some 1000) (Some 10) 9 CONFIRMED None []),
                     (''hF2'', mkTx ''hF2'' ''Y'' ''P'' 100 0 (Some 1000) (Some 10) 8 CONFIRMED None []),
                     (''hR'', mkTx ''hR'' ''P'' ''ME'' 100 0 (Some 2000) (Some 20) 19 CONFIRMED None [])]]
      = Inr \<lparr> relatedTx = Some (mkTx ''hF1'' ''X'' ''P'' 100 0 (Some 1000) (Some 10) 9 CONFIRMED None []),
              needToSubscribeToProxy = True, proxyStoreCall = AddClaimedProxy ''P'' \<rparr>"
    by (simp add: matcher_defs)
  have order2: "handleProxyTransaction myStores
        (mkTx ''hR'' ''P'' ''ME'' 100 0 (Some 2000) (Some 20) 19 CONFIRMED None [])
        [''P'' \<mapsto> [(''hF2'', mkTx ''hF2'' ''Y'' ''P'' 100 0 (Some 1000) (Some 10) 8 CONFIRMED None []),
                     (''hF1'', mkTx ''hF1'' ''X'' ''P'' 100 0 (Some 1000) (Some 10) 9 CONFIRMED None []),
                     (''hR'', mkTx ''hR'' ''P'' ''ME'' 100 0 (Some 2000) (Some 20) 19 CONFIRMED None [])]]
      = Inr \<lparr> relatedTx = Some (mkTx ''hF2'' ''Y'' ''P'' 100 0 (Some 1000) (Some 10) 8 CONFIRMED None []),
              needToSubscribeToProxy = True, proxyStoreCall = AddClaimedProxy ''P'' \<rparr>"
    by (simp add: matcher_defs)
  from step strict tie two order1 order2 show ?thesis
    by (intro conjI)
qed

theorem tie_keeps_earlier_candidate_witness:
  "pickCloser False
     (Some (mkTx ''hF1'' ''X'' ''P'' 100 0 (Some 1000) (Some 10) 9 CONFIRMED None []))
     (mkTx ''hF2'' ''Y'' ''P'' 100 0 (Some 1000) (Some 10) 8 CONFIRMED None [])
   = Some (mkTx ''hF1'' ''X'' ''P'' 100 0 (Some 1000) (Some 10) 9 CONFIRMED None [])"
proof -
  let ?F1 = "mkTx ''hF1'' ''X'' ''P'' 100 0 (Some 1000) (Some 10) 9 CONFIRMED None []"
  let ?F2 = "mkTx ''hF2'' ''Y'' ''P'' 100 0 (Some 1000) (Some 10) 8 CONFIRMED None []"
  have "mutualOrderingField ?F1 ?F2 ?F2 = mutualOrderingField ?F1 ?F2 ?F1"
    by (simp add: mutualOrderingField_def mkTx_def truthyNumber_def)
  with tie_keeps_earlier_candidate show ?thesis
    by blast
qed

lemma foldl_pickCloser_Some:
  "\<exists>r. foldl (pickCloser f) (Some a) xs = Some r"
  by (induction xs arbitrary: a) (simp_all add: pickCloser_Some)

lemma findRelatedTx_common_field:
  assumes "cands = potentialRelatedTxs st tx p txs" and "cands \<noteq> []"
  shows "\<exists>r. findRelatedTx st tx p txs = Some r \<and> r \<in> set cands
     \<and> ((\<forall>c\<in>set cands. truthyNumber (timestamp c)) \<longrightarrow>
          (\<forall>c\<in>set cands. if p = recipient tx then the (timestamp r) \<le> the (timestamp c)
                            else the (timestamp c) \<le> the (timestamp r)))
     \<and> ((\<forall>c\<in>set cands. \<not> truthyNumber (timestamp c) \<and> truthyNumber (blockHeight c)) \<longrightarrow>
          (\<forall>c\<in>set cands. if p = recipient tx then the (blockHeight r) \<le> the (blockHeight c)
                            else the (blockHeight c) \<le> the (blockHeight r)))
     \<and> ((\<forall>c\<in>set cands. \<not> truthyNumber (timestamp c) \<and> \<not> truthyNumber (blockHeight c)) \<longrightarrow>
          (\<forall>c\<in>set cands. if p = recipient tx then validityStartHeight r \<le> validityStartHeight c
                            else validityStartHeight c \<le> validityStartHeight r))"
proof -
  let ?f = "p = recipient tx"
  have run: "findRelatedTx st tx p txs = foldl (pickCloser ?f) None cands"
    by (simp add: findRelatedTx_def assms(1))
  from assms(2) obtain x xs where "cands = x # xs"
    by (cases cands) auto
  with foldl_pickCloser_Some [of ?f x xs] obtain r where
    r: "foldl (pickCloser ?f) None cands = Some r"
    by (auto simp: pickCloser_def)
  with foldl_pickCloser_mem [of ?f None cands r] have mem: "r \<in> set cands"
    by simp
  have least: "\<forall>c\<in>set cands. if ?f then k r \<le> k c else k c \<le> k r"
    if "\<forall>a\<in>set cands. \<forall>b\<in>set cands.
          mutualOrderingField a b a = k a \<and> mutualOrderingField a b b = k b" for k
    using foldl_pickCloser_least [OF assms(2) that, of ?f] r by auto
  have ts: "\<forall>c\<in>set cands. if ?f then the (timestamp r) \<le> the (timestamp c)
                            else the (timestamp c) \<le> the (timestamp r)"
    if "\<forall>c\<in>set cands. truthyNumber (timestamp c)"
    by (rule least) (use that in \<open>simp add: mutualOrderingField_def\<close>)
  have bh: "\<forall>c\<in>set cands. if ?f then the (blockHeight r) \<le> the (blockHeight c)
                            else the (blockHeight c) \<le> the (blockHeight r)"
    if "\<forall>c\<in>set cands. \<not> truthyNumber (timestamp c) \<and> truthyNumber (blockHeight c)"
    by (rule least) (use that in \<open>simp add: mutualOrderingField_def\<close>)
  have vsh: "\<forall>c\<in>set cands. if ?f then validityStartHeight r \<le> validityStartHeight c
                            else validityStartHeight c \<le> validityStartHeight r"
    if "\<forall>c\<in>set cands. \<not> truthyNumber (timestamp c) \<and> \<not> truthyNumber (blockHeight c)"
    by (rule least) (use that in \<open>simp add: mutualOrderingField_def\<close>)
  from run r mem ts bh vsh show ?thesis
    by (intro exI [of _ r] conjI impI) simp_all
qed

text \<open>
  Claim C2, amended. When the heuristic search runs and all surviving candidates are
  compared on one ordering field (all have a timestamp; or none has a timestamp and
  all have a block height; or none has a timestamp or a block height, which leaves the
  validity start height), the related transaction is a surviving candidate with the
  least value of that field for a funding \<open>tx\<close> and with the greatest value for a
  redeeming \<open>tx\<close>. For fundings F1 before F2 and a redeemer R the search for R returns
  F2; for a funding F and redeemers R1 before R2 the search for F returns R1, in either
  enumeration order.
\<close>

theorem tie_break_on_common_field:
  "(\<forall>st tx known obj cands.
      \<not> truthyString (relatedTransactionHash tx)
      \<and> known (getProxyAddress st tx) = Some obj
      \<and> cands = potentialRelatedTxs st tx (getProxyAddress st tx) (Object_values obj)
      \<and> cands \<noteq> [] \<longrightarrow>
      (\<exists>res r. handleProxyTransaction st tx known = Inr res
         \<and> relatedTx res = Some r \<and> r \<in> set cands
         \<and> ((\<forall>c\<in>set cands. truthyNumber (timestamp c)) \<longrightarrow>
              (\<forall>c\<in>set cands. if getProxyAddress st tx = recipient tx
                                then the (timestamp r) \<le> the (timestamp c)
                                else the (timestamp c) \<le> the (timestamp r)))
         \<and> ((\<forall>c\<in>set cands. \<not> truthyNumber (timestamp c) \<and> truthyNumber (blockHeight c)) \<longrightarrow>
              (\<forall>c\<in>set cands. if getProxyAddress st tx = recipient tx
                                then the (blockHeight r) \<le> the (blockHeight c)
                                else the (blockHeight c) \<le> the (blockHeight r)))
         \<and> ((\<forall>c\<in>set cands. \<not> truthyNumber (timestamp c) \<and> \<not> truthyNumber (blockHeight c)) \<longrightarrow>
              (\<forall>c\<in>set cands. if getProxyAddress st tx = recipient tx
                                then validityStartHeight r \<le> validityStartHeight c
                                else validityStartHeight c \<le> validityStartHeight r))))
   \<and> handleProxyTransaction myStores
        (mkTx ''hR'' ''P'' ''ME'' 100 0 (Some 2000) (Some 20) 19 CONFIRMED None [])
        [''P'' \<mapsto> [(''hF1'', mkTx ''hF1'' ''X'' ''P'' 100 0 (Some 1000) (Some 10) 9 CONFIRMED None []),
                     (''hF2'', mkTx ''hF2'' ''Y'' ''P'' 100 0 (Some 1500) (Some 15) 14 CONFIRMED None []),
                     (''hR'', mkTx ''hR'' ''P'' ''ME'' 100 0 (Some 2000) (Some 20) 19 CONFIRMED None [])]]
      = Inr \<lparr> relatedTx = Some (mkTx ''hF2'' ''Y'' ''P'' 100 0 (Some 1500) (Some 15) 14 CONFIRMED None []),
              needToSubscribeToProxy = True, proxyStoreCall = AddClaimedProxy ''P'' \<rparr>
   \<and> handleProxyTransaction myStores
        (mkTx ''hR'' ''P'' ''ME'' 100 0 (Some 2000) (Some 20) 19 CONFIRMED None [])
        [''P'' \<mapsto> [(''hF2'', mkTx ''hF2'' ''Y'' ''P'' 100 0 (Some 1500) (Some 15) 14 CONFIRMED None []),
                     (''hF1'', mkTx ''hF1'' ''X'' ''P'' 100 0 (Some 1000) (Some 10) 9 CONFIRMED None []),
                     (''hR'', mkTx ''hR'' ''P'' ''ME'' 100 0 (Some 2000) (Some 20) 19 CONFIRMED None [])]]
      = Inr \<lparr> relatedTx = Some (mkTx ''hF2'' ''Y'' ''P'' 100 0 (Some 1500) (Some 15) 14 CONFIRMED None []),
              needToSubscribeToProxy = True, proxyStoreCall = AddClaimedProxy ''P'' \<rparr>
   \<and> handleProxyTransaction myStores
        (mkTx ''hF'' ''ME'' ''P'' 100 0 (Some 1000) (Some 10) 9 CONFIRMED None [])
        [''P'' \<mapsto> [(''hF'', mkTx ''hF'' ''ME'' ''P'' 100 0 (Some 1000) (Some 10) 9 CONFIRMED None []),
                     (''hR1'', mkTx ''hR1'' ''P'' ''X'' 100 0 (Some 2000) (Some 20) 19 CONFIRMED None []),
                     (''hR2'', mkTx ''hR2'' ''P'' ''Y'' 100 0 (Some 3000) (Some 30) 29 CONFIRMED None [])]]
      = Inr \<lparr> relatedTx = Some (mkTx ''hR1'' ''P'' ''X'' 100 0 (Some 2000) (Some 20) 19 CONFIRMED None []),
              needToSubscribeToProxy = True, proxyStoreCall = AddFundedProxy ''P'' \<rparr>
   \<and> handleProxyTransaction myStores
        (mkTx ''hF'' ''ME'' ''P'' 100 0 (Some 1000) (Some 10) 9 CONFIRMED None [])
        [''P'' \<mapsto> [(''hF'', mkTx ''hF'' ''ME'' ''P'' 100 0 (Some 1000) (Some 10) 9 CONFIRMED None []),
                     (''hR2'', mkTx ''hR2'' ''P'' ''Y'' 100 0 (Some 3000) (Some 30) 29 CONFIRMED None []),
                     (''hR1'', mkTx ''hR1'' ''P'' ''X'' 100 0 (Some 2000) (Some 20) 19 CONFIRMED None [])]]
      = Inr \<lparr> relatedTx = Some (mkTx ''hR1'' ''P'' ''X'' 100 0 (Some 2000) (Some 20) 19 CONFIRMED None []),
              needToSubscribeToProxy = True, proxyStoreCall = AddFundedProxy ''P'' \<rparr>"
proof -
  have general: "\<forall>st tx known obj cands.
      \<not> truthyString (relatedTransactionHash tx)
      \<and> known (getProxyAddress st tx) = Some obj
      \<and> cands = potentialRelatedTxs st tx (getProxyAddress st tx) (Object_values obj)
      \<and> cands \<noteq> [] \<longrightarrow>
      (\<exists>res r. handleProxyTransaction st tx known = Inr res
         \<and> relatedTx res = Some r \<and> r \<in> set cands
         \<and> ((\<forall>c\<in>set cands. truthyNumber (timestamp c)) \<longrightarrow>
              (\<forall>c\<in>set cands. if getProxyAddress st tx = recipient tx
                                then the (timestamp r) \<le> the (timestamp c)
                                else the (timestamp c) \<le> the (timestamp r)))
         \<and> ((\<forall>c\<in>set cands. \<not> truthyNumber (timestamp c) \<and> truthyNumber (blockHeight c)) \<longrightarrow>
              (\<forall>c\<in>set cands. if getProxyAddress st tx = recipient tx
                                then the (blockHeight r) \<le> the (blockHeight c)
                                else the (blockHeight c) \<le> the (blockHeight r)))
         \<and> ((\<forall>c\<in>set cands. \<not> truthyNumber (timestamp c) \<and> \<not> truthyNumber (blockHeight c)) \<longrightarrow>
              (\<forall>c\<in>set cands. if getProxyAddress st tx = recipient tx
                                then validityStartHeight r \<le> validityStartHeight c
                                else validityStartHeight c \<le> validityStartHeight r)))"
  proof (intro allI impI, elim conjE)
    fix st tx known obj cands
    assume a: "\<not> truthyString (relatedTransactionHash tx)"
      "known (getProxyAddress st tx) = Some obj"
      "cands = potentialRelatedTxs st tx (getProxyAddress st tx) (Object_values obj)"
      "cands \<noteq> []"
    from handleProxyTransaction_heuristic [where known = known and st = st, OF a(1,2)]
    obtain res where res: "handleProxyTransaction st tx known = Inr res"
      "relatedTx res = findRelatedTx st tx (getProxyAddress st tx) (Object_values obj)"
      by blast
    from findRelatedTx_common_field [OF a(3,4)] obtain r where
      r: "findRelatedTx st tx (getProxyAddress st tx) (Object_values obj) = Some r \<and> r \<in> set cands
         \<and> ((\<forall>c\<in>set cands. truthyNumber (timestamp c)) \<longrightarrow>
              (\<forall>c\<in>set cands. if getProxyAddress st tx = recipient tx
                                then the (timestamp r) \<le> the (timestamp c)
                                else the (timestamp c) \<le> the (timestamp r)))
         \<and> ((\<forall>c\<in>set cands. \<not> truthyNumber (timestamp c) \<and> truthyNumber (blockHeight c)) \<longrightarrow>
              (\<forall>c\<in>set cands. if getProxyAddress st tx = recipient tx
                                then the (blockHeight r) \<le> the (blockHeight c)
                                else the (blockHeight c) \<le> the (blockHeight r)))
         \<and> ((\<forall>c\<in>set cands. \<not> truthyNumber (timestamp c) \<and> \<not> truthyNumber (blockHeight c)) \<longrightarrow>
              (\<forall>c\<in>set cands. if getProxyAddress st tx = recipient tx
                                then validityStartHeight r \<le> validityStartHeight c
                                else validityStartHeight c \<le> validityStartHeight r))"
      by blast
    have rel: "relatedTx res = Some r"
      using res(2) r by simp
    from r have rest: "r \<in> set cands
         \<and> ((\<forall>c\<in>set cands. truthyNumber (timestamp c)) \<longrightarrow>
              (\<forall>c\<in>set cands. if getProxyAddress st tx = recipient tx
                                then the (timestamp r) \<le> the (timestamp c)
                                else the (timestamp c) \<le> the (timestamp r)))
         \<and> ((\<forall>c\<in>set cands. \<not> truthyNumber (timestamp c) \<and> truthyNumber (blockHeight c)) \<longrightarrow>
              (\<forall>c\<in>set cands. if getProxyAddress st tx = recipient tx
                                then the (blockHeight r) \<le> the (blockHeight c)
                                else the (blockHeight c) \<le> the (blockHeight r)))
         \<and> ((\<forall>c\<in>set cands. \<not> truthyNumber (timestamp c) \<and> \<not> truthyNumber (blockHeight c)) \<longrightarrow>
              (\<forall>c\<in>set cands. if getProxyAddress st tx = recipient tx
                                then validityStartHeight r \<le> validityStartHeight c
                                else validityStartHeight c \<le> validityStartHeight r))"
      by (rule conjunct2)
    from res(1) rel rest
    show "\<exists>res r. handleProxyTransaction st tx known = Inr res
         \<and> relatedTx res = Some r \<and> r \<in> set cands
         \<and> ((\<forall>c\<in>set cands. truthyNumber (timestamp c)) \<longrightarrow>
              (\<forall>c\<in>set cands. if getProxyAddress st tx = recipient tx
                                then the (timestamp r) \<le> the (timestamp c)
                                else the (timestamp c) \<le> the (timestamp r)))
         \<and> ((\<forall>c\<in>set cands. \<not> truthyNumber (timestamp c) \<and> truthyNumber (blockHeight c)) \<longrightarrow>
              (\<forall>c\<in>set cands. if getProxyAddress st tx = recipient tx
                                then the (blockHeight r) \<le> the (blockHeight c)
                                else the (blockHeight c) \<le> the (blockHeight r)))
         \<and> ((\<forall>c\<in>set cands. \<not> truthyNumber (timestamp c) \<and> \<not> truthyNumber (blockHeight c)) \<longrightarrow>
              (\<forall>c\<in>set cands. if getProxyAddress st tx = recipient tx
                                then validityStartHeight r \<le> validityStartHeight c
                                else validityStartHeight c \<le> validityStartHeight r))"
      by (intro exI [of _ res] exI [of _ r]) iprover
  qed
  have lifo1: "handleProxyTransaction myStores
        (mkTx ''hR'' ''P'' ''ME'' 100 0 (Some 2000) (Some 20) 19 CONFIRMED None [])
        [''P'' \<mapsto> [(''hF1'', mkTx ''hF1'' ''X'' ''P'' 100 0 (Some 1000) (Some 10) 9 CONFIRMED None []),
                     (''hF2'', mkTx ''hF2'' ''Y'' ''P'' 100 0 (Some 1500) (Some 15) 14 CONFIRMED None []),
                     (''hR'', mkTx ''hR'' ''P'' ''ME'' 100 0 (Some 2000) (Some 20) 19 CONFIRMED None [])]]
      = Inr \<lparr> relatedTx = Some (mkTx ''hF2'' ''Y'' ''P'' 100 0 (Some 1500) (Some 15) 14 CONFIRMED None []),
              needToSubscribeToProxy = True, proxyStoreCall = AddClaimedProxy ''P'' \<rparr>"
    by (simp add: matcher_defs)
  have lifo2: "handleProxyTransaction myStores
        (mkTx ''hR'' ''P'' ''ME'' 100 0 (Some 2000) (Some 20) 19 CONFIRMED None [])
        [''P'' \<mapsto> [(''hF2'', mkTx ''hF2'' ''Y'' ''P'' 100 0 (Some 1500) (Some 15) 14 CONFIRMED None []),
                     (''hF1'', mkTx ''hF1'' ''X'' ''P'' 100 0 (Some 1000) (Some 10) 9 CONFIRMED None []),
                     (''hR'', mkTx ''hR'' ''P'' ''ME'' 100 0 (Some 2000) (Some 20) 19 CONFIRMED None [])]]
      = Inr \<lparr> relatedTx = Some (mkTx ''hF2'' ''Y'' ''P'' 100 0 (Some 1500) (Some 15) 14 CONFIRMED None []),
              needToSubscribeToProxy = True, proxyStoreCall = AddClaimedProxy ''P'' \<rparr>"
    by (simp add: matcher_defs)
  have fifo1: "handleProxyTransaction myStores
        (mkTx ''hF'' ''ME'' ''P'' 100 0 (Some 1000) (Some 10) 9 CONFIRMED None [])
        [''P'' \<mapsto> [(''hF'', mkTx ''hF'' ''ME'' ''P'' 100 0 (Some 1000) (Some 10) 9 CONFIRMED None []),
                     (''hR1'', mkTx ''hR1'' ''P'' ''X'' 100 0 (Some 2000) (Some 20) 19 CONFIRMED None []),
                     (''hR2'', mkTx ''hR2'' ''P'' ''Y'' 100 0 (Some 3000) (Some 30) 29 CONFIRMED None [])]]
      = Inr \<lparr> relatedTx = Some (mkTx ''hR1'' ''P'' ''X'' 100 0 (Some 2000) (Some 20) 19 CONFIRMED None []),
              needToSubscribeToProxy = True, proxyStoreCall = AddFundedProxy ''P'' \<rparr>"
    by (simp add: matcher_defs)
  have fifo2: "handleProxyTransaction myStores
        (mkTx ''hF'' ''ME'' ''P'' 100 0 (Some 1000) (Some 10) 9 CONFIRMED None [])
        [''P'' \<mapsto> [(''hF'', mkTx ''hF'' ''ME'' ''P'' 100 0 (Some 1000) (Some 10) 9 CONFIRMED None []),
                     (''hR2'', mkTx ''hR2'' ''P'' ''Y'' 100 0 (Some 3000) (Some 30) 29 CONFIRMED None []),
                     (''hR1'', mkTx ''hR1'' ''P'' ''X'' 100 0 (Some 2000) (Some 20) 19 CONFIRMED None [])]]
      = Inr \<lparr> relatedTx = Some (mkTx ''hR1'' ''P'' ''X'' 100 0 (Some 2000) (Some 20) 19 CONFIRMED None []),
              needToSubscribeToProxy = True, proxyStoreCall = AddFundedProxy ''P'' \<rparr>"
    by (simp add: matcher_defs)
  from general lifo1 lifo2 fifo1 fifo2 show ?thesis
    by (intro conjI)
qed

theorem tie_break_on_common_field_witness:
  "\<exists>res r. handleProxyTransaction myStores
        (mkTx ''hR'' ''P'' ''ME'' 100 0 (Some 2000) (Some 20) 19 CONFIRMED None [])
        [''P'' \<mapsto> [(''hF1'', mkTx ''hF1'' ''X'' ''P'' 100 0 (Some 1000) (Some 10) 9 CONFIRMED None []),
                     (''hF2'', mkTx ''hF2'' ''Y'' ''P'' 100 0 (Some 1500) (Some 15) 14 CONFIRMED None []),
                     (''hR'', mkTx ''hR'' ''P'' ''ME'' 100 0 (Some 2000) (Some 20) 19 CONFIRMED None [])]]
      = Inr res \<and> relatedTx res = Some r \<and> 1500 \<le> the (timestamp r)"
proof -
  let ?R = "mkTx ''hR'' ''P'' ''ME'' 100 0 (Some 2000) (Some 20) 19 CONFIRMED None []"
  let ?F1 = "mkTx ''hF1'' ''X'' ''P'' 100 0 (Some 1000) (Some 10) 9 CONFIRMED None []"
  let ?F2 = "mkTx ''hF2'' ''Y'' ''P'' 100 0 (Some 1500) (Some 15) 14 CONFIRMED None []"
  let ?obj = "[(''hF1'', ?F1), (''hF2'', ?F2), (''hR'', ?R)]"
  let ?known = "[''P'' \<mapsto> ?obj]"
  have p: "getProxyAddress myStores ?R = ''P''"
    by (simp add: matcher_defs)
  have h1: "\<not> truthyString (relatedTransactionHash ?R)"
    by (simp add: mkTx_def truthyString_def)
  have h2: "?known (getProxyAddress myStores ?R) = Some ?obj"
    by (simp add: p)
  have h3: "[?F1, ?F2] = potentialRelatedTxs myStores ?R (getProxyAddress myStores ?R) (Object_values ?obj)"
    unfolding p by (simp add: matcher_defs)
  have h4: "[?F1, ?F2] \<noteq> []" by simp
  have role: "getProxyAddress myStores ?R \<noteq> recipient ?R"
    unfolding p by (simp add: mkTx_def)
  have all_ts: "\<forall>c\<in>set [?F1, ?F2]. truthyNumber (timestamp c)"
    by (simp add: mkTx_def truthyNumber_def)
  from tie_break_on_common_field
         [THEN conjunct1, rule_format,
          where st = myStores and tx = "?R" and known = "?known" and obj = "?obj"
            and cands = "[?F1, ?F2]",
          OF conjI [OF h1 conjI [OF h2 conjI [OF h3 h4]]]]
  obtain res r where res: "handleProxyTransaction myStores ?R ?known = Inr res"
      "relatedTx res = Some r"
    and ts: "(\<forall>c\<in>set [?F1, ?F2]. truthyNumber (timestamp c)) \<longrightarrow>
              (\<forall>c\<in>set [?F1, ?F2]. if getProxyAddress myStores ?R = recipient ?R
                                then the (timestamp r) \<le> the (timestamp c)
                                else the (timestamp c) \<le> the (timestamp r))"
    by blast
  from ts all_ts role have "the (timestamp ?F2) \<le> the (timestamp r)"
    by simp
  then have "1500 \<le> the (timestamp r)"
    by (simp add: mkTx_def)
  with res show ?thesis by blast
qed

text \<open>
  Claim C2 as stated fails when the candidates are not all compared on the same field.
  For a funding transaction with the redeeming candidates A and C (confirmed) and B
  (pending, so compared on the validity start height), enumerated as C, A, B, the
  search returns B although the candidate A has the smaller validity start height and
  counts as closer than B in the loop's own comparison; enumerated as A, B, C the same
  candidates give C.
\<close>

theorem closest_candidate_depends_on_order:
  "handleProxyTransaction myStores
     (mkTx ''hF'' ''ME'' ''P'' 100 0 (Some 50) (Some 5) 4 CONFIRMED None [])
     [''P'' \<mapsto> [(''hF'', mkTx ''hF'' ''ME'' ''P'' 100 0 (Some 50) (Some 5) 4 CONFIRMED None []),
                  (''hC'', mkTx ''hC'' ''P'' ''Z'' 100 0 (Some 90) (Some 58) 52 CONFIRMED None []),
                  (''hA'', mkTx ''hA'' ''P'' ''X'' 100 0 (Some 100) (Some 60) 50 CONFIRMED None []),
                  (''hB'', mkTx ''hB'' ''P'' ''Y'' 100 0 None None 51 PENDING None [])]]
   = Inr \<lparr> relatedTx = Some (mkTx ''hB'' ''P'' ''Y'' 100 0 None None 51 PENDING None []),
           needToSubscribeToProxy = True, proxyStoreCall = AddFundedProxy ''P'' \<rparr>
   \<and> mkTx ''hA'' ''P'' ''X'' 100 0 (Some 100) (Some 60) 50 CONFIRMED None []
       \<in> set (potentialRelatedTxs myStores
                (mkTx ''hF'' ''ME'' ''P'' 100 0 (Some 50) (Some 5) 4 CONFIRMED None []) ''P''
                [mkTx ''hF'' ''ME'' ''P'' 100 0 (Some 50) (Some 5) 4 CONFIRMED None [],
                 mkTx ''hC'' ''P'' ''Z'' 100 0 (Some 90) (Some 58) 52 CONFIRMED None [],
                 mkTx ''hA'' ''P'' ''X'' 100 0 (Some 100) (Some 60) 50 CONFIRMED None [],
                 mkTx ''hB'' ''P'' ''Y'' 100 0 None None 51 PENDING None []])
   \<and> validityStartHeight (mkTx ''hA'' ''P'' ''X'' 100 0 (Some 100) (Some 60) 50 CONFIRMED None [])
       < validityStartHeight (mkTx ''hB'' ''P'' ''Y'' 100 0 None None 51 PENDING None [])
   \<and> pickCloser True (Some (mkTx ''hB'' ''P'' ''Y'' 100 0 None None 51 PENDING None []))
        (mkTx ''hA'' ''P'' ''X'' 100 0 (Some 100) (Some 60) 50 CONFIRMED None [])
       = Some (mkTx ''hA'' ''P'' ''X'' 100 0 (Some 100) (Some 60) 50 CONFIRMED None [])
   \<and> handleProxyTransaction myStores
     (mkTx ''hF'' ''ME'' ''P'' 100 0 (Some 50) (Some 5) 4 CONFIRMED None [])
     [''P'' \<mapsto> [(''hF'', mkTx ''hF'' ''ME'' ''P'' 100 0 (Some 50) (Some 5) 4 CONFIRMED None []),
                  (''hA'', mkTx ''hA'' ''P'' ''X'' 100 0 (Some 100) (Some 60) 50 CONFIRMED None []),
                  (''hB'', mkTx ''hB'' ''P'' ''Y'' 100 0 None None 51 PENDING None []),
                  (''hC'', mkTx ''hC'' ''P'' ''Z'' 100 0 (Some 90) (Some 58) 52 CONFIRMED None [])]]
   = Inr \<lparr> relatedTx = Some (mkTx ''hC'' ''P'' ''Z'' 100 0 (Some 90) (Some 58) 52 CONFIRMED None []),
           needToSubscribeToProxy = True, proxyStoreCall = AddFundedProxy ''P'' \<rparr>"
  by (simp add: matcher_defs)

end
